theory Spec2Isabelle
  imports Main "HOL-Library.Word"
begin

section \<open>Resource model (api/agentic/v1alpha1)\<close>

text \<open>
  The declarative inputs of the translator. Only the fields the translator reads are kept.
  Go strings are byte sequences, modelled as \<open>string\<close>; a nil or empty slice is \<open>[]\<close>.
\<close>

record Source =
  Identities :: "string list"
  ServiceAccounts :: "string list"

record AuthRule =
  Source :: Source
  Tools :: "string list"

text \<open>\<open>gwapiv1.LocalPolicyTargetReference\<close>: group, kind and name of the target.\<close>

record LocalPolicyTargetReference =
  Group :: string
  Kind :: string
  ref_Name :: string

text \<open>\<open>AuthPolicyAction\<close> is a Go string type; its only declared constant is \<open>ActionAllow\<close>.\<close>

type_synonym AuthPolicyAction = string

definition ActionAllow :: AuthPolicyAction where
  "ActionAllow = ''ALLOW''"

record AuthPolicySpec =
  TargetRef :: LocalPolicyTargetReference
  Rules :: "AuthRule list"
  Action :: AuthPolicyAction

record AuthPolicy =
  Spec :: AuthPolicySpec

text \<open>
  The Backend type is declared outside the translator; the translator reads its namespace,
  its name and the three fields of \<open>Spec.MCP\<close>. The Go integer type of \<open>Port\<close> is converted
  with \<open>uint32(...)\<close> where it is used, so it is kept as an integer here and the conversion
  is written out at the use.
\<close>

record MCPBackend =
  ServiceName :: string
  Hostname :: string
  Port :: int

record Backend =
  Namespace :: string
  Name :: string
  MCP :: MCPBackend

section \<open>Compiled output: the RBAC messages the translator builds\<close>

text \<open>
  The protobuf messages of go-control-plane, restricted to the alternatives the translator
  constructs. A oneof is a datatype with one constructor per alternative.
\<close>

datatype StringMatcher = StringMatcher_Exact string

datatype HeaderMatchSpecifier =
    HeaderMatcher_StringMatch StringMatcher
  | HeaderMatcher_PresentMatch bool

datatype HeaderMatcher = HeaderMatcher string HeaderMatchSpecifier

datatype ValueMatcher =
    ValueMatcher_StringMatch StringMatcher
  | ValueMatcher_OrMatch "ValueMatcher list"

text \<open>\<open>MetadataMatcher\<close>: filter name, path of keys, value matcher.\<close>

datatype MetadataMatcher = MetadataMatcher string "string list" ValueMatcher

datatype Principal =
    Principal_AndIds "Principal list"
  | Principal_OrIds "Principal list"
  | Principal_Any bool
  | Principal_Header HeaderMatcher

datatype Permission =
    Permission_AndRules "Permission list"
  | Permission_OrRules "Permission list"
  | Permission_Any bool
  | Permission_Header HeaderMatcher
  | Permission_SourcedMetadata MetadataMatcher

record Policy =
  Principals :: "Principal list"
  Permissions :: "Permission list"

datatype RBAC_Action = RBAC_ALLOW | RBAC_DENY | RBAC_LOG

text \<open>\<open>rbacconfigv3.RBAC\<close> (action and named policies) and the filter message around it.\<close>

record rbacconfig_RBAC =
  rbac_Action :: RBAC_Action
  rbac_Policies :: "string \<rightharpoonup> Policy"

record rbac_RBAC =
  rbac_Rules :: rbacconfig_RBAC

section \<open>Constants (authPolicy.go, constants.go)\<close>

definition allowMCPSessionClosePolicyName :: string where
  "allowMCPSessionClosePolicyName = ''allow-mcp-session-close''"

definition allowAnyoneToInitializeAndListToolsPolicyName :: string where
  "allowAnyoneToInitializeAndListToolsPolicyName = ''allow-anyone-to-initialize-and-list-tools''"

definition initializeMethod :: string where
  "initializeMethod = ''initialize''"

definition initializedMethod :: string where
  "initializedMethod = ''notifications/initialized''"

definition toolsListMethod :: string where
  "toolsListMethod = ''tools/list''"

definition mcpSessionIDHeader :: string where
  "mcpSessionIDHeader = ''mcp-session-id''"

definition toolsCallMethod :: string where
  "toolsCallMethod = ''tools/call''"

definition mcpProxyFilterName :: string where
  "mcpProxyFilterName = ''mcp_proxy''"

section \<open>Formatting\<close>

text \<open>
  \<open>%d\<close> of a non-negative integer: its decimal digits, most significant first, no padding.
\<close>

definition digit :: "nat \<Rightarrow> char" where
  "digit d = ''0123456789'' ! d"

fun Sprintf_d :: "nat \<Rightarrow> string" where
  "Sprintf_d n = (if n < 10 then [digit n] else Sprintf_d (n div 10) @ [digit (n mod 10)])"

declare Sprintf_d.simps [simp del]

text \<open>\<open>RBACPolicyNameFormat = "%s-%s-rule-%d"\<close> applied to namespace, backend name and index.\<close>

definition RBACPolicyName :: "string \<Rightarrow> string \<Rightarrow> nat \<Rightarrow> string" where
  "RBACPolicyName ns name i = ns @ ''-'' @ name @ ''-rule-'' @ Sprintf_d i"

text \<open>\<open>ClusterNameFormat = "%s-%s"\<close> applied to namespace and backend name.\<close>

definition ClusterName :: "string \<Rightarrow> string \<Rightarrow> string" where
  "ClusterName ns name = ns @ ''-'' @ name"

section \<open>RBAC policy compiler (pkg/translator/authPolicy.go)\<close>

text \<open>Go errors are modelled by their messages.\<close>

type_synonym error = string

text \<open>
  The lister is the informer cache: for a namespace it returns the AuthPolicies there or an
  error.
\<close>

type_synonym AuthPolicyLister = "string \<Rightarrow> error + AuthPolicy list"

definition rbacActionFromAuthPolicy :: "AuthPolicy option \<Rightarrow> RBAC_Action" where
  "rbacActionFromAuthPolicy authPolicy =
     (let defaultAction = RBAC_ALLOW in
      case authPolicy of
        None \<Rightarrow> defaultAction
      | Some p \<Rightarrow> (if Action (Spec p) = ActionAllow then RBAC_ALLOW else defaultAction))"

text \<open>The loop of \<open>findAuthPolicyForBackend\<close> returns the first policy that targets the backend.\<close>

definition targetsBackend :: "Backend \<Rightarrow> AuthPolicy \<Rightarrow> bool" where
  "targetsBackend backend authPolicy =
     (Kind (TargetRef (Spec authPolicy)) = ''Backend'' \<and>
      ref_Name (TargetRef (Spec authPolicy)) = Name backend)"

definition findAuthPolicyForBackend ::
  "Backend \<Rightarrow> AuthPolicyLister \<Rightarrow> error + AuthPolicy option" where
  "findAuthPolicyForBackend backend authPolicyLister =
     (case authPolicyLister (Namespace backend) of
        Inl err \<Rightarrow>
          Inl (''failed to list AuthPolicies in namespace '' @ Namespace backend @ '': '' @ err)
      | Inr allAuthPolicies \<Rightarrow> Inr (find (targetsBackend backend) allAuthPolicies))"

text \<open>One exact-match principal on the \<open>x-user-role\<close> header, as built for each source.\<close>

definition sourcePrincipal :: "string \<Rightarrow> Principal" where
  "sourcePrincipal source =
     Principal_Header
       (HeaderMatcher ''x-user-role'' (HeaderMatcher_StringMatch (StringMatcher_Exact source)))"

definition toolValueMatcher :: "string \<Rightarrow> ValueMatcher" where
  "toolValueMatcher tool = ValueMatcher_StringMatch (StringMatcher_Exact tool)"

text \<open>
  The body of the loop over the rules: the policy compiled from the lists the iteration
  reads. \<open>append(rule.Source.Identities, rule.Source.ServiceAccounts...)\<close> yields the
  identities followed by the service accounts; what the call does to the memory behind the
  slices is modelled in the section on Go slices below.
\<close>

definition rulePrincipals :: "AuthRule \<Rightarrow> Principal list" where
  "rulePrincipals rule =
     (let allSources = Identities (Source rule) @ ServiceAccounts (Source rule) in
      if length allSources > 0
      then [Principal_OrIds (map sourcePrincipal allSources)]
      else [])"

definition rulePermissions :: "AuthRule \<Rightarrow> Permission list" where
  "rulePermissions rule =
     (if length (Tools rule) > 0 then
        (let toolValueMatchers = map toolValueMatcher (Tools rule);
             toolsMatcher =
               (if length toolValueMatchers = 1 then toolValueMatchers ! 0
                else ValueMatcher_OrMatch toolValueMatchers)
         in [Permission_AndRules
              [Permission_SourcedMetadata
                 (MetadataMatcher mcpProxyFilterName [''method'']
                    (ValueMatcher_StringMatch (StringMatcher_Exact toolsCallMethod))),
               Permission_SourcedMetadata
                 (MetadataMatcher mcpProxyFilterName [''params'', ''name''] toolsMatcher)]])
      else [])"

definition rulePolicy :: "AuthRule \<Rightarrow> Policy" where
  "rulePolicy rule = \<lparr>Principals = rulePrincipals rule, Permissions = rulePermissions rule\<rparr>"

text \<open>
  The loop \<open>for i, rule := range authPolicy.Spec.Rules\<close>, with the index and the map built so
  far.
\<close>

fun translateRules ::
  "string \<Rightarrow> string \<Rightarrow> nat \<Rightarrow> AuthRule list \<Rightarrow> (string \<rightharpoonup> Policy) \<Rightarrow> (string \<rightharpoonup> Policy)" where
  "translateRules ns name i [] policies = policies"
| "translateRules ns name i (rule # rules) policies =
     translateRules ns name (Suc i) rules
       (policies(RBACPolicyName ns name i \<mapsto> rulePolicy rule))"

definition translateAuthPolicyToRBAC :: "AuthPolicy \<Rightarrow> Backend \<Rightarrow> (string \<rightharpoonup> Policy)" where
  "translateAuthPolicyToRBAC authPolicy backend =
     translateRules (Namespace backend) (Name backend) 0 (Rules (Spec authPolicy)) Map.empty"

definition buildAllowMCPSessionClosePolicy :: Policy where
  "buildAllowMCPSessionClosePolicy =
     \<lparr>Principals =
        [Principal_AndIds
           [Principal_Header
              (HeaderMatcher '':method'' (HeaderMatcher_StringMatch (StringMatcher_Exact ''DELETE''))),
            Principal_Header
              (HeaderMatcher mcpSessionIDHeader (HeaderMatcher_PresentMatch True))]],
      Permissions = [Permission_Any True]\<rparr>"

definition buildAllowAnyoneToInitializeAndListToolsPolicy :: Policy where
  "buildAllowAnyoneToInitializeAndListToolsPolicy =
     \<lparr>Principals = [Principal_Any True],
      Permissions =
        [Permission_OrRules
           [Permission_SourcedMetadata
              (MetadataMatcher mcpProxyFilterName [''method'']
                 (ValueMatcher_OrMatch
                    [ValueMatcher_StringMatch (StringMatcher_Exact initializeMethod),
                     ValueMatcher_StringMatch (StringMatcher_Exact initializedMethod),
                     ValueMatcher_StringMatch (StringMatcher_Exact toolsListMethod)])),
            Permission_Header
              (HeaderMatcher '':method'' (HeaderMatcher_StringMatch (StringMatcher_Exact ''GET'')))]]\<rparr>"

definition rbacConfigFromAuthPolicy :: "AuthPolicyLister \<Rightarrow> Backend \<Rightarrow> error + rbac_RBAC" where
  "rbacConfigFromAuthPolicy authPolicyLister backend =
     (case findAuthPolicyForBackend backend authPolicyLister of
        Inl err \<Rightarrow> Inl err
      | Inr authPolicy \<Rightarrow>
          (let rbacPolicies =
                 (case authPolicy of
                    None \<Rightarrow> Map.empty
                  | Some p \<Rightarrow> translateAuthPolicyToRBAC p backend);
               action = rbacActionFromAuthPolicy authPolicy;
               rbacPolicies' =
                 (if action = RBAC_ALLOW
                  then rbacPolicies
                         (allowMCPSessionClosePolicyName \<mapsto> buildAllowMCPSessionClosePolicy,
                          allowAnyoneToInitializeAndListToolsPolicyName \<mapsto>
                            buildAllowAnyoneToInitializeAndListToolsPolicy)
                  else rbacPolicies)
           in Inr \<lparr>rbac_Rules = \<lparr>rbac_Action = action, rbac_Policies = rbacPolicies'\<rparr>\<rparr>))"

section \<open>The rule loop on Go slices\<close>

text \<open>
  \<open>translateRules\<close> above compiles the lists that each iteration reads. In Go the three
  lists of a rule are slices: a pointer into a backing array, a length and a capacity.
  \<open>append(rule.Source.Identities, rule.Source.ServiceAccounts...)\<close> writes the service
  accounts into the array of \<open>Identities\<close> when its capacity suffices and allocates a new
  array otherwise. The write changes no element of \<open>Identities\<close>, but it can change what a
  slice sharing that array holds: the tools of the same rule, read after the append, or a
  list of a later rule. The loop is therefore modelled a second time on slices in a memory
  of string cells, and the results below say when both models agree.
\<close>

type_synonym memory = "nat \<Rightarrow> string"

record slice =
  slice_ptr :: nat
  slice_len :: nat
  slice_cap :: nat

definition cells :: "slice \<Rightarrow> nat list" where
  "cells s = [slice_ptr s ..< slice_ptr s + slice_len s]"

definition readSlice :: "memory \<Rightarrow> slice \<Rightarrow> string list" where
  "readSlice mem s = map mem (cells s)"

fun writeCells :: "memory \<Rightarrow> nat \<Rightarrow> string list \<Rightarrow> memory" where
  "writeCells mem a [] = mem"
| "writeCells mem a (x # xs) = writeCells (mem(a := x)) (Suc a) xs"

text \<open>
  \<open>append(s, t...)\<close>: the memory it leaves behind and the elements of the slice it returns.
  With enough capacity the elements of \<open>t\<close> are copied behind those of \<open>s\<close> in the array of
  \<open>s\<close>; otherwise the result lives in a new array and the memory the policy can reach is
  unchanged.
\<close>

definition appendSlice :: "memory \<Rightarrow> slice \<Rightarrow> slice \<Rightarrow> memory \<times> string list" where
  "appendSlice mem s t =
     (let xs = readSlice mem s; ys = readSlice mem t
      in if slice_len s + slice_len t \<le> slice_cap s
         then (writeCells mem (slice_ptr s + slice_len s) ys, xs @ ys)
         else (mem, xs @ ys))"

text \<open>An \<open>AuthRule\<close> in memory: the slice headers of its three lists.\<close>

record AuthRuleSlices =
  IdentitiesSlice :: slice
  ServiceAccountsSlice :: slice
  ToolsSlice :: slice

text \<open>
  The lists one iteration reads: identities and service accounts before the append, the
  tools after it.
\<close>

definition ruleAsRead :: "memory \<Rightarrow> AuthRuleSlices \<Rightarrow> AuthRule" where
  "ruleAsRead mem rule =
     \<lparr>Source = \<lparr>Identities = readSlice mem (IdentitiesSlice rule),
                 ServiceAccounts = readSlice mem (ServiceAccountsSlice rule)\<rparr>,
      Tools = readSlice
                (fst (appendSlice mem (IdentitiesSlice rule) (ServiceAccountsSlice rule)))
                (ToolsSlice rule)\<rparr>"

text \<open>The body of the loop on slices: the memory it leaves behind and the compiled policy.\<close>

definition translateRuleMem :: "memory \<Rightarrow> AuthRuleSlices \<Rightarrow> memory \<times> Policy" where
  "translateRuleMem mem rule =
     (case appendSlice mem (IdentitiesSlice rule) (ServiceAccountsSlice rule) of
        (mem', allSources) \<Rightarrow>
          (mem',
           \<lparr>Principals =
              (if length allSources > 0
               then [Principal_OrIds (map sourcePrincipal allSources)]
               else []),
            Permissions = rulePermissions (ruleAsRead mem rule)\<rparr>))"

fun translateRulesMem ::
  "string \<Rightarrow> string \<Rightarrow> nat \<Rightarrow> AuthRuleSlices list \<Rightarrow> memory \<Rightarrow> (string \<rightharpoonup> Policy) \<Rightarrow>
   memory \<times> (string \<rightharpoonup> Policy)" where
  "translateRulesMem ns name i [] mem policies = (mem, policies)"
| "translateRulesMem ns name i (rule # rules) mem policies =
     (case translateRuleMem mem rule of
        (mem', policy) \<Rightarrow>
          translateRulesMem ns name (Suc i) rules mem'
            (policies(RBACPolicyName ns name i \<mapsto> policy)))"

text \<open>
  \<open>translateAuthPolicyToRBAC\<close> on a policy whose rules are the given slices in the given
  memory.
\<close>

definition translateAuthPolicyToRBACMem ::
  "memory \<Rightarrow> AuthRuleSlices list \<Rightarrow> Backend \<Rightarrow> (string \<rightharpoonup> Policy)" where
  "translateAuthPolicyToRBACMem mem rules backend =
     snd (translateRulesMem (Namespace backend) (Name backend) 0 rules mem Map.empty)"

text \<open>The memory as it is when the loop reaches the rule at index \<open>i\<close>.\<close>

fun memoryAt :: "memory \<Rightarrow> AuthRuleSlices list \<Rightarrow> nat \<Rightarrow> memory" where
  "memoryAt mem [] i = mem"
| "memoryAt mem (rule # rules) 0 = mem"
| "memoryAt mem (rule # rules) (Suc i) =
     memoryAt (fst (appendSlice mem (IdentitiesSlice rule) (ServiceAccountsSlice rule))) rules i"

text \<open>The lists the iterations read, rule by rule.\<close>

fun rulesAsRead :: "memory \<Rightarrow> AuthRuleSlices list \<Rightarrow> AuthRule list" where
  "rulesAsRead mem [] = []"
| "rulesAsRead mem (rule # rules) =
     ruleAsRead mem rule #
     rulesAsRead (fst (appendSlice mem (IdentitiesSlice rule) (ServiceAccountsSlice rule))) rules"

text \<open>
  The cells an iteration may write, and the cells a rule's lists occupy. The rules of a
  policy are separate when no iteration writes a cell that the tools of the same rule or
  any list of a later rule occupies; this holds whenever every list has an array of its
  own, as in a policy decoded from the API server.
\<close>

definition writtenCells :: "AuthRuleSlices \<Rightarrow> nat list" where
  "writtenCells rule =
     (let s = IdentitiesSlice rule; t = ServiceAccountsSlice rule
      in if slice_len s + slice_len t \<le> slice_cap s
         then [slice_ptr s + slice_len s ..< slice_ptr s + slice_len s + slice_len t]
         else [])"

definition readCells :: "AuthRuleSlices \<Rightarrow> nat list" where
  "readCells rule =
     cells (IdentitiesSlice rule) @ cells (ServiceAccountsSlice rule) @ cells (ToolsSlice rule)"

definition disjointCells :: "nat list \<Rightarrow> nat list \<Rightarrow> bool" where
  "disjointCells xs ys = list_all (\<lambda>x. x \<notin> set ys) xs"

fun separate :: "AuthRuleSlices list \<Rightarrow> bool" where
  "separate [] = True"
| "separate (rule # rules) =
     (disjointCells (writtenCells rule) (cells (ToolsSlice rule)) \<and>
      list_all (\<lambda>later. disjointCells (writtenCells rule) (readCells later)) rules \<and>
      separate rules)"

text \<open>The policy held by the given slices, read from one memory.\<close>

definition ruleAt :: "memory \<Rightarrow> AuthRuleSlices \<Rightarrow> AuthRule" where
  "ruleAt mem rule =
     \<lparr>Source = \<lparr>Identities = readSlice mem (IdentitiesSlice rule),
                 ServiceAccounts = readSlice mem (ServiceAccountsSlice rule)\<rparr>,
      Tools = readSlice mem (ToolsSlice rule)\<rparr>"

section \<open>Reading the compiled matchers\<close>

text \<open>
  The translator only builds messages; the proxy evaluates them. To state which requests a
  compiled policy matches, the messages are read as the RBAC filter documents them: a
  header matcher looks at one request header, a metadata matcher at the string stored under
  a filter name and a path of keys, \<open>and\<close>/\<open>or\<close> sets are conjunctions and disjunctions, and a
  policy matches when one of its permissions and one of its principals match. A request is
  seen through its headers (the pseudo-header \<open>:method\<close> carries the HTTP method) and the
  string metadata the filters have published.
\<close>

record Request =
  headers :: "string \<rightharpoonup> string"
  metadata :: "string \<Rightarrow> string list \<Rightarrow> string option"

fun string_match :: "StringMatcher \<Rightarrow> string \<Rightarrow> bool" where
  "string_match (StringMatcher_Exact e) v = (v = e)"

fun header_match :: "HeaderMatcher \<Rightarrow> Request \<Rightarrow> bool" where
  "header_match (HeaderMatcher n (HeaderMatcher_StringMatch m)) r =
     (case headers r n of None \<Rightarrow> False | Some v \<Rightarrow> string_match m v)"
| "header_match (HeaderMatcher n (HeaderMatcher_PresentMatch b)) r =
     ((headers r n \<noteq> None) = b)"

fun value_match :: "ValueMatcher \<Rightarrow> string \<Rightarrow> bool" where
  "value_match (ValueMatcher_StringMatch m) v = string_match m v"
| "value_match (ValueMatcher_OrMatch ms) v = list_ex (\<lambda>m. value_match m v) ms"

fun metadata_match :: "MetadataMatcher \<Rightarrow> Request \<Rightarrow> bool" where
  "metadata_match (MetadataMatcher f p vm) r =
     (case metadata r f p of None \<Rightarrow> False | Some v \<Rightarrow> value_match vm v)"

fun principal_match :: "Principal \<Rightarrow> Request \<Rightarrow> bool" where
  "principal_match (Principal_AndIds ids) r = list_all (\<lambda>p. principal_match p r) ids"
| "principal_match (Principal_OrIds ids) r = list_ex (\<lambda>p. principal_match p r) ids"
| "principal_match (Principal_Any b) r = b"
| "principal_match (Principal_Header h) r = header_match h r"

fun permission_match :: "Permission \<Rightarrow> Request \<Rightarrow> bool" where
  "permission_match (Permission_AndRules rules) r = list_all (\<lambda>p. permission_match p r) rules"
| "permission_match (Permission_OrRules rules) r = list_ex (\<lambda>p. permission_match p r) rules"
| "permission_match (Permission_Any b) r = b"
| "permission_match (Permission_Header h) r = header_match h r"
| "permission_match (Permission_SourcedMetadata m) r = metadata_match m r"

definition principals_match :: "Policy \<Rightarrow> Request \<Rightarrow> bool" where
  "principals_match policy r = list_ex (\<lambda>p. principal_match p r) (Principals policy)"

definition permissions_match :: "Policy \<Rightarrow> Request \<Rightarrow> bool" where
  "permissions_match policy r = list_ex (\<lambda>p. permission_match p r) (Permissions policy)"

definition policy_match :: "Policy \<Rightarrow> Request \<Rightarrow> bool" where
  "policy_match policy r = (permissions_match policy r \<and> principals_match policy r)"

section \<open>Connectivity compiler (convertBackendToCluster)\<close>

datatype Cluster_DiscoveryType = Cluster_STRICT_DNS | Cluster_LOGICAL_DNS

record UpstreamTlsContext =
  Sni :: string

text \<open>
  The transport socket carries the TLS context packed by \<open>anypb.New\<close>. Packing is a library
  call that may fail; it is a parameter of the compiler, and \<open>'any\<close> is the packed message.
\<close>

record 'any TransportSocket =
  ts_Name :: string
  TypedConfig :: 'any

text \<open>
  \<open>createClusterLoadAssignment(clusterName, address, port)\<close> is a helper of the translator
  package that builds the load assignment (the endpoint) of the cluster. It is a parameter
  of the compiler, and \<open>'la\<close> is the load assignment it returns.
\<close>

text \<open>\<open>time.Duration\<close> counts nanoseconds; \<open>durationpb.New\<close> keeps the amount.\<close>

definition Second :: int where
  "Second = 1000000000"

definition defaultConnectTimeout :: int where
  "defaultConnectTimeout = 5 * Second"

record ('la, 'any) Cluster =
  cluster_Name :: string
  ConnectTimeout :: int
  ClusterDiscoveryType :: "Cluster_DiscoveryType option"
  LoadAssignment :: "'la option"
  TransportSocket :: "'any TransportSocket option"

text \<open>The Go conversion \<open>uint32(x)\<close> of an integer keeps its low 32 bits.\<close>

definition uint32 :: "int \<Rightarrow> 32 word" where
  "uint32 x = word_of_int x"

definition convertBackendToCluster ::
  "(string \<Rightarrow> string \<Rightarrow> 32 word \<Rightarrow> 'la) \<Rightarrow> (UpstreamTlsContext \<Rightarrow> error + 'any) \<Rightarrow>
   Backend \<Rightarrow> error + ('la, 'any) Cluster" where
  "convertBackendToCluster createClusterLoadAssignment anypb_New backend =
     (let clusterName = ClusterName (Namespace backend) (Name backend);
          cluster = \<lparr>cluster_Name = clusterName, ConnectTimeout = defaultConnectTimeout,
                     ClusterDiscoveryType = None, LoadAssignment = None,
                     TransportSocket = None\<rparr>
      in if ServiceName (MCP backend) \<noteq> [] then
           (let serviceFQDN =
                  ServiceName (MCP backend) @ ''.'' @ Namespace backend @ ''.svc.cluster.local''
            in Inr (cluster
                 \<lparr>ClusterDiscoveryType := Some Cluster_STRICT_DNS,
                  LoadAssignment :=
                    Some (createClusterLoadAssignment clusterName serviceFQDN
                            (uint32 (Port (MCP backend))))\<rparr>))
         else
           (let cluster' = cluster
                  \<lparr>ClusterDiscoveryType := Some Cluster_LOGICAL_DNS,
                   LoadAssignment :=
                     Some (createClusterLoadAssignment clusterName (Hostname (MCP backend))
                             (uint32 (Port (MCP backend))))\<rparr>;
                tlsContext = \<lparr>Sni = Hostname (MCP backend)\<rparr>
            in case anypb_New tlsContext of
                 Inl err \<Rightarrow> Inl err
               | Inr any \<Rightarrow>
                   Inr (cluster'
                     \<lparr>TransportSocket :=
                        Some \<lparr>ts_Name = ''envoy.transport_sockets.tls'', TypedConfig = any\<rparr>\<rparr>)))"

section \<open>Configuration distribution server (xds.Server)\<close>

text \<open>
  The server's state, as far as \<open>UpdateXDSServer\<close> touches it: the 64-bit version counter
  and the snapshot cache. The cache and the two calls into go-control-plane
  (\<open>cachev3.NewSnapshot\<close>, \<open>SnapshotCache.SetSnapshot\<close>) are parameters: \<open>NewSnapshot\<close> gets
  the version token and the resources and returns a snapshot or an error; \<open>SetSnapshot\<close>
  gets the cache, the node id and the snapshot and returns the cache it leaves behind
  together with an optional error.
\<close>

record 'c Server =
  version :: "64 word"
  cache :: 'c

text \<open>\<open>atomic.Uint64\<close>: \<open>Add\<close> wraps at \<open>2^64\<close>; \<open>Load\<close> reads the current value.\<close>

definition version_Add :: "64 word \<Rightarrow> 'c Server \<Rightarrow> 'c Server" where
  "version_Add delta s = s\<lparr>version := version s + delta\<rparr>"

definition version_Load :: "'c Server \<Rightarrow> 64 word" where
  "version_Load s = version s"

text \<open>\<open>fmt.Sprintf("%d", version)\<close> of the unsigned counter value.\<close>

definition versionToken :: "64 word \<Rightarrow> string" where
  "versionToken v = Sprintf_d (unat v)"

text \<open>
  The part of \<open>UpdateXDSServer\<close> after the counter has been read into the local variable
  \<open>version\<close>: build the snapshot, commit it, return the error (\<open>None\<close> is \<open>nil\<close>).
\<close>

definition publish ::
  "(string \<Rightarrow> 'r \<Rightarrow> error + 'snap) \<Rightarrow> ('c \<Rightarrow> string \<Rightarrow> 'snap \<Rightarrow> error option \<times> 'c) \<Rightarrow>
   string \<Rightarrow> 'r \<Rightarrow> 64 word \<Rightarrow> 'c Server \<Rightarrow> error option \<times> 'c Server" where
  "publish NewSnapshot SetSnapshot nodeid resources ver s =
     (case NewSnapshot (versionToken ver) resources of
        Inl err \<Rightarrow> (Some (''failed to create new snapshot cache: '' @ err), s)
      | Inr snapshot \<Rightarrow>
          (case SetSnapshot (cache s) nodeid snapshot of
             (Some err, c) \<Rightarrow>
               (Some (''failed to update resource snapshot in management server: '' @ err),
                s\<lparr>cache := c\<rparr>)
           | (None, c) \<Rightarrow> (None, s\<lparr>cache := c\<rparr>)))"

text \<open>One call running alone: \<open>Add(1)\<close>, \<open>Load()\<close>, then the rest.\<close>

definition UpdateXDSServer ::
  "(string \<Rightarrow> 'r \<Rightarrow> error + 'snap) \<Rightarrow> ('c \<Rightarrow> string \<Rightarrow> 'snap \<Rightarrow> error option \<times> 'c) \<Rightarrow>
   string \<Rightarrow> 'r \<Rightarrow> 'c Server \<Rightarrow> error option \<times> 'c Server" where
  "UpdateXDSServer NewSnapshot SetSnapshot nodeid resources s =
     (let s1 = version_Add 1 s;
          ver = version_Load s1
      in publish NewSnapshot SetSnapshot nodeid resources ver s1)"

text \<open>
  Calls running at the same time. The counter operations are atomic and the cache update
  happens under the cache's lock, so a call is a sequence of three steps between which
  other calls may run: before \<open>Add\<close>, between \<open>Add\<close> and \<open>Load\<close>, after \<open>Load\<close> (holding
  the loaded value in its local variable), and returned.
\<close>

datatype 'r Call =
    Call_Start string 'r
  | Call_Added string 'r
  | Call_Loaded string 'r "64 word"
  | Call_Returned "error option"

fun stepCall ::
  "(string \<Rightarrow> 'r \<Rightarrow> error + 'snap) \<Rightarrow> ('c \<Rightarrow> string \<Rightarrow> 'snap \<Rightarrow> error option \<times> 'c) \<Rightarrow>
   'c Server \<Rightarrow> 'r Call \<Rightarrow> 'c Server \<times> 'r Call" where
  "stepCall NewSnapshot SetSnapshot s (Call_Start nodeid resources) =
     (version_Add 1 s, Call_Added nodeid resources)"
| "stepCall NewSnapshot SetSnapshot s (Call_Added nodeid resources) =
     (s, Call_Loaded nodeid resources (version_Load s))"
| "stepCall NewSnapshot SetSnapshot s (Call_Loaded nodeid resources ver) =
     (case publish NewSnapshot SetSnapshot nodeid resources ver s of
        (err, s') \<Rightarrow> (s', Call_Returned err))"
| "stepCall NewSnapshot SetSnapshot s (Call_Returned err) = (s, Call_Returned err)"

text \<open>A schedule names, step by step, the call that runs next.\<close>

fun runSchedule ::
  "(string \<Rightarrow> 'r \<Rightarrow> error + 'snap) \<Rightarrow> ('c \<Rightarrow> string \<Rightarrow> 'snap \<Rightarrow> error option \<times> 'c) \<Rightarrow>
   nat list \<Rightarrow> 'c Server \<times> 'r Call list \<Rightarrow> 'c Server \<times> 'r Call list" where
  "runSchedule NewSnapshot SetSnapshot [] st = st"
| "runSchedule NewSnapshot SetSnapshot (t # ts) (s, calls) =
     (if t < length calls
      then (case stepCall NewSnapshot SetSnapshot s (calls ! t) of
              (s', c') \<Rightarrow> runSchedule NewSnapshot SetSnapshot ts (s', calls[t := c']))
      else runSchedule NewSnapshot SetSnapshot ts (s, calls))"

section \<open>Example resources\<close>

text \<open>
  Concrete inputs on which the results below are evaluated: an in-cluster and an external
  backend, a policy with three rules (two tools; no tools; no sources), and requests as the
  proxy sees them after the MCP filter has published the method and the tool name.
\<close>

definition inClusterBackend :: Backend where
  "inClusterBackend =
     \<lparr>Namespace = ''ns'', Name = ''local-mcp'',
      MCP = \<lparr>ServiceName = ''svc'', Hostname = [], Port = 8080\<rparr>\<rparr>"

definition externalBackend :: Backend where
  "externalBackend =
     \<lparr>Namespace = ''ns'', Name = ''remote-mcp'',
      MCP = \<lparr>ServiceName = [], Hostname = ''api.example.com'', Port = 443\<rparr>\<rparr>"

definition exampleSource :: Source where
  "exampleSource =
     \<lparr>Identities = [''spiffe://td/ns/default/sa/a''], ServiceAccounts = [''default/b'']\<rparr>"

definition examplePolicy :: AuthPolicy where
  "examplePolicy =
     \<lparr>Spec =
        \<lparr>TargetRef = \<lparr>Group = ''agentic.networking.x-k8s.io'', Kind = ''Backend'',
                       ref_Name = ''local-mcp''\<rparr>,
         Rules =
           [\<lparr>Source = exampleSource, Tools = [''add'', ''getTinyImage'']\<rparr>,
            \<lparr>Source = exampleSource, Tools = []\<rparr>,
            \<lparr>Source = \<lparr>Identities = [], ServiceAccounts = []\<rparr>, Tools = [''echo'']\<rparr>],
         Action = ''ALLOW''\<rparr>\<rparr>"

definition exampleLister :: AuthPolicyLister where
  "exampleLister ns = (if ns = ''ns'' then Inr [examplePolicy] else Inr [])"

text \<open>A POST carrying a JSON-RPC call of \<open>method\<close>, naming \<open>tool\<close>, sent by \<open>identity\<close>.\<close>

definition mcpRequest :: "string \<Rightarrow> string \<Rightarrow> string \<Rightarrow> Request" where
  "mcpRequest identity method tool =
     \<lparr>headers = ['':method'' \<mapsto> ''POST'', ''x-user-role'' \<mapsto> identity],
      metadata =
        (\<lambda>f p. if f = ''mcp_proxy'' \<and> p = [''method''] then Some method
               else if f = ''mcp_proxy'' \<and> p = [''params'', ''name''] then Some tool
               else None)\<rparr>"

text \<open>A request with the given HTTP method and headers and no MCP metadata.\<close>

definition httpRequest :: "string \<Rightarrow> (string \<times> string) list \<Rightarrow> Request" where
  "httpRequest method hs =
     \<lparr>headers = (map_of hs)('':method'' \<mapsto> method), metadata = (\<lambda>f p. None)\<rparr>"

text \<open>
  Rules as slices. In \<open>exampleMemory\<close> every list has an array of its own, and the identities
  have spare capacity, so both appends write in place (cells 1 and 6). In \<open>sharedMemory\<close>
  the identities of the second rule are the whole array \<open>[a, b]\<close> of which the first rule's
  identities are the prefix \<open>[a]\<close> with capacity 2.
\<close>

definition exampleMemory :: memory where
  "exampleMemory a =
     (if a < 8
      then [''spiffe://td/ns/default/sa/a'', [], ''default/b'', ''add'', ''getTinyImage'',
            ''spiffe://td/ns/default/sa/a'', [], ''default/b''] ! a
      else [])"

definition exampleRuleSlices :: "AuthRuleSlices list" where
  "exampleRuleSlices =
     [\<lparr>IdentitiesSlice = \<lparr>slice_ptr = 0, slice_len = 1, slice_cap = 2\<rparr>,
       ServiceAccountsSlice = \<lparr>slice_ptr = 2, slice_len = 1, slice_cap = 1\<rparr>,
       ToolsSlice = \<lparr>slice_ptr = 3, slice_len = 2, slice_cap = 2\<rparr>\<rparr>,
      \<lparr>IdentitiesSlice = \<lparr>slice_ptr = 5, slice_len = 1, slice_cap = 2\<rparr>,
       ServiceAccountsSlice = \<lparr>slice_ptr = 7, slice_len = 1, slice_cap = 1\<rparr>,
       ToolsSlice = \<lparr>slice_ptr = 0, slice_len = 0, slice_cap = 0\<rparr>\<rparr>]"

definition sharedMemory :: memory where
  "sharedMemory a = (if a < 3 then [''a'', ''b'', ''x''] ! a else [])"

definition sharedRuleSlices :: "AuthRuleSlices list" where
  "sharedRuleSlices =
     [\<lparr>IdentitiesSlice = \<lparr>slice_ptr = 0, slice_len = 1, slice_cap = 2\<rparr>,
       ServiceAccountsSlice = \<lparr>slice_ptr = 2, slice_len = 1, slice_cap = 1\<rparr>,
       ToolsSlice = \<lparr>slice_ptr = 0, slice_len = 0, slice_cap = 0\<rparr>\<rparr>,
      \<lparr>IdentitiesSlice = \<lparr>slice_ptr = 0, slice_len = 2, slice_cap = 2\<rparr>,
       ServiceAccountsSlice = \<lparr>slice_ptr = 0, slice_len = 0, slice_cap = 0\<rparr>,
       ToolsSlice = \<lparr>slice_ptr = 0, slice_len = 0, slice_cap = 0\<rparr>\<rparr>]"

text \<open>A policy whose only rule names no source and allows the tool \<open>echo\<close>.\<close>

definition emptySourcePolicy :: AuthPolicy where
  "emptySourcePolicy =
     \<lparr>Spec =
        \<lparr>TargetRef = \<lparr>Group = ''agentic.networking.x-k8s.io'', Kind = ''Backend'',
                       ref_Name = ''local-mcp''\<rparr>,
         Rules = [\<lparr>Source = \<lparr>Identities = [], ServiceAccounts = []\<rparr>, Tools = [''echo'']\<rparr>],
         Action = ''ALLOW''\<rparr>\<rparr>"

text \<open>
  Stand-ins for the two helpers of the connectivity compiler: the load assignment is the
  triple of its arguments, and packing keeps the TLS context as it is and succeeds.
\<close>

definition exampleLoadAssignment :: "string \<Rightarrow> string \<Rightarrow> 32 word \<Rightarrow> string \<times> string \<times> 32 word" where
  "exampleLoadAssignment clusterName address port = (clusterName, address, port)"

definition examplePack :: "UpstreamTlsContext \<Rightarrow> error + UpstreamTlsContext" where
  "examplePack tlsContext = Inr tlsContext"

text \<open>
  Stand-ins for the two library calls: a snapshot is the pair of version token and resources;
  the resources are a list of type names and building a snapshot fails on an unknown one;
  committing stores the snapshot under the node id and succeeds.
\<close>

definition exampleNewSnapshot :: "string \<Rightarrow> string list \<Rightarrow> error + (string \<times> string list)" where
  "exampleNewSnapshot ver resources =
     (if list_all (\<lambda>t. t \<in> set [''listener'', ''route'', ''cluster'']) resources
      then Inr (ver, resources)
      else Inl ''unknown resource type'')"

definition exampleSetSnapshot ::
  "(string \<rightharpoonup> string \<times> string list) \<Rightarrow> string \<Rightarrow> string \<times> string list \<Rightarrow>
   error option \<times> (string \<rightharpoonup> string \<times> string list)" where
  "exampleSetSnapshot c nodeid snapshot = (None, c(nodeid \<mapsto> snapshot))"

definition freshServer :: "(string \<rightharpoonup> string \<times> string list) Server" where
  "freshServer = \<lparr>version = 0, cache = Map.empty\<rparr>"

section \<open>Policy names are distinct per rule index\<close>

lemma digit_inj: "a < 10 \<Longrightarrow> b < 10 \<Longrightarrow> digit a = digit b \<Longrightarrow> a = b"
  unfolding digit_def
  by (subst (asm) nth_eq_iff_index_eq) simp_all

lemma Sprintf_d_nonempty: "Sprintf_d n \<noteq> []"
  by (subst Sprintf_d.simps) simp

lemma Sprintf_d_inj: "Sprintf_d n = Sprintf_d m \<Longrightarrow> n = m"
proof (induction n arbitrary: m rule: Sprintf_d.induct)
  case (1 n)
  show ?case
  proof (cases "n < 10")
    case small_n: True
    show ?thesis
    proof (cases "m < 10")
      case True
      with small_n "1.prems" show ?thesis
        by (simp add: Sprintf_d.simps [of n] Sprintf_d.simps [of m] digit_inj)
    next
      case False
      then have "Sprintf_d m = Sprintf_d (m div 10) @ [digit (m mod 10)]"
        by (subst Sprintf_d.simps) simp
      moreover have "Sprintf_d n = [digit n]"
        using small_n by (subst Sprintf_d.simps) simp
      ultimately show ?thesis
        using "1.prems" Sprintf_d_nonempty [of "m div 10"] by (simp add: Cons_eq_append_conv)
    qed
  next
    case big_n: False
    then have n_eq: "Sprintf_d n = Sprintf_d (n div 10) @ [digit (n mod 10)]"
      by (subst Sprintf_d.simps) simp
    show ?thesis
    proof (cases "m < 10")
      case True
      then have "Sprintf_d m = [digit m]" by (subst Sprintf_d.simps) simp
      with n_eq "1.prems" Sprintf_d_nonempty [of "n div 10"] show ?thesis
        by (simp add: append_eq_Cons_conv)
    next
      case False
      then have "Sprintf_d m = Sprintf_d (m div 10) @ [digit (m mod 10)]"
        by (subst Sprintf_d.simps) simp
      with n_eq "1.prems" have heads: "Sprintf_d (n div 10) = Sprintf_d (m div 10)"
        and lasts: "digit (n mod 10) = digit (m mod 10)"
        by simp_all
      from "1.IH" [OF big_n heads] have "n div 10 = m div 10" .
      moreover from lasts have "n mod 10 = m mod 10"
        by (rule digit_inj [rotated 2]) simp_all
      ultimately show ?thesis
        by (metis div_mult_mod_eq)
    qed
  qed
qed

lemma RBACPolicyName_inj: "RBACPolicyName ns name i = RBACPolicyName ns name j \<longleftrightarrow> i = j"
  by (auto simp: RBACPolicyName_def dest: Sprintf_d_inj)

section \<open>What the rule loop stores\<close>

lemma translateRules_other:
  "(\<And>k. i \<le> k \<Longrightarrow> k < i + length rules \<Longrightarrow> key \<noteq> RBACPolicyName ns name k) \<Longrightarrow>
   translateRules ns name i rules policies key = policies key"
proof (induction rules arbitrary: i policies)
  case Nil
  then show ?case by simp
next
  case (Cons rule rules)
  have "translateRules ns name (Suc i) rules
          (policies(RBACPolicyName ns name i \<mapsto> rulePolicy rule)) key =
        (policies(RBACPolicyName ns name i \<mapsto> rulePolicy rule)) key"
    by (rule Cons.IH) (use Cons.prems in auto)
  moreover have "key \<noteq> RBACPolicyName ns name i"
    using Cons.prems [of i] by simp
  ultimately show ?case by simp
qed

lemma translateRules_at:
  "j < length rules \<Longrightarrow>
   translateRules ns name i rules policies (RBACPolicyName ns name (i + j)) =
     Some (rulePolicy (rules ! j))"
proof (induction rules arbitrary: i j policies)
  case Nil
  then show ?case by simp
next
  case (Cons rule rules)
  show ?case
  proof (cases j)
    case 0
    have "translateRules ns name (Suc i) rules
            (policies(RBACPolicyName ns name i \<mapsto> rulePolicy rule)) (RBACPolicyName ns name i) =
          (policies(RBACPolicyName ns name i \<mapsto> rulePolicy rule)) (RBACPolicyName ns name i)"
      by (rule translateRules_other) (simp add: RBACPolicyName_inj)
    with 0 show ?thesis by simp
  next
    case (Suc j')
    with Cons.prems have "j' < length rules" by simp
    from Cons.IH [OF this, of "Suc i"] Suc show ?thesis by simp
  qed
qed

lemma translateAuthPolicyToRBAC_at:
  "i < length (Rules (Spec authPolicy)) \<Longrightarrow>
   translateAuthPolicyToRBAC authPolicy backend
     (RBACPolicyName (Namespace backend) (Name backend) i) =
   Some (rulePolicy (Rules (Spec authPolicy) ! i))"
  unfolding translateAuthPolicyToRBAC_def
  using translateRules_at [of i "Rules (Spec authPolicy)" "Namespace backend" "Name backend" 0]
  by simp

section \<open>The rule loop on slices and on lists\<close>

text \<open>
  The loop on slices stores, for every rule, the policy compiled from the lists read when
  the loop reaches the rule. When the rules are separate these are the lists the policy
  holds when the call starts, and the loop on slices computes what \<open>translateAuthPolicyToRBAC\<close>
  computes on those lists.
\<close>

lemma appendSlice_elements:
  "snd (appendSlice mem s t) = readSlice mem s @ readSlice mem t"
  by (simp add: appendSlice_def Let_def)

lemma translateRuleMem_policy:
  "snd (translateRuleMem mem rule) = rulePolicy (ruleAsRead mem rule)"
  by (simp add: translateRuleMem_def rulePolicy_def rulePrincipals_def ruleAsRead_def
      appendSlice_def Let_def)

lemma translateRuleMem_memory:
  "fst (translateRuleMem mem rule) =
     fst (appendSlice mem (IdentitiesSlice rule) (ServiceAccountsSlice rule))"
  by (simp add: translateRuleMem_def split: prod.split)

lemma translateRulesMem_reads:
  "snd (translateRulesMem ns name i rules mem policies) =
     translateRules ns name i (rulesAsRead mem rules) policies"
proof (induction rules arbitrary: i mem policies)
  case Nil
  then show ?case by simp
next
  case (Cons rule rules)
  let ?mem' = "fst (appendSlice mem (IdentitiesSlice rule) (ServiceAccountsSlice rule))"
  have step: "translateRuleMem mem rule = (?mem', rulePolicy (ruleAsRead mem rule))"
    using translateRuleMem_policy [of mem rule] translateRuleMem_memory [of mem rule]
    by (cases "translateRuleMem mem rule") simp
  have "snd (translateRulesMem ns name i (rule # rules) mem policies) =
      snd (translateRulesMem ns name (Suc i) rules ?mem'
             (policies(RBACPolicyName ns name i \<mapsto> rulePolicy (ruleAsRead mem rule))))"
    by (simp only: translateRulesMem.simps step prod.case)
  also have "\<dots> = translateRules ns name (Suc i) (rulesAsRead ?mem' rules)
             (policies(RBACPolicyName ns name i \<mapsto> rulePolicy (ruleAsRead mem rule)))"
    by (rule Cons.IH)
  also have "\<dots> = translateRules ns name i (rulesAsRead mem (rule # rules)) policies"
    by (simp only: rulesAsRead.simps translateRules.simps)
  finally show ?case .
qed

lemma length_rulesAsRead: "length (rulesAsRead mem rules) = length rules"
  by (induction rules arbitrary: mem) simp_all

lemma rulesAsRead_nth:
  "i < length rules \<Longrightarrow> rulesAsRead mem rules ! i = ruleAsRead (memoryAt mem rules i) (rules ! i)"
proof (induction rules arbitrary: i mem)
  case Nil
  then show ?case by simp
next
  case (Cons rule rules)
  then show ?case by (cases i) simp_all
qed

lemma translateAuthPolicyToRBACMem_at:
  "i < length rules \<Longrightarrow>
   translateAuthPolicyToRBACMem mem rules backend
     (RBACPolicyName (Namespace backend) (Name backend) i) =
   Some (rulePolicy (ruleAsRead (memoryAt mem rules i) (rules ! i)))"
  unfolding translateAuthPolicyToRBACMem_def translateRulesMem_reads
  using translateRules_at [of i "rulesAsRead mem rules" "Namespace backend" "Name backend" 0]
  by (simp add: length_rulesAsRead rulesAsRead_nth)

lemma writeCells_other:
  "k < a \<or> a + length ys \<le> k \<Longrightarrow> writeCells mem a ys k = mem k"
  by (induction ys arbitrary: a mem) auto

lemma readSlice_writeCells:
  "disjointCells [a ..< a + length ys] (cells s) \<Longrightarrow>
   readSlice (writeCells mem a ys) s = readSlice mem s"
  unfolding readSlice_def disjointCells_def list_all_iff
  by (intro map_cong refl writeCells_other) force

lemma length_readSlice: "length (readSlice mem s) = slice_len s"
  by (simp add: readSlice_def cells_def)

lemma readSlice_after_append:
  assumes "disjointCells (writtenCells rule) (cells s)"
  shows "readSlice (fst (appendSlice mem (IdentitiesSlice rule) (ServiceAccountsSlice rule))) s =
     readSlice mem s"
proof (cases "slice_len (IdentitiesSlice rule) + slice_len (ServiceAccountsSlice rule)
    \<le> slice_cap (IdentitiesSlice rule)")
  case True
  let ?a = "slice_ptr (IdentitiesSlice rule) + slice_len (IdentitiesSlice rule)"
  let ?ys = "readSlice mem (ServiceAccountsSlice rule)"
  from True assms have "disjointCells [?a ..< ?a + length ?ys] (cells s)"
    by (simp add: writtenCells_def Let_def length_readSlice)
  then have "readSlice (writeCells mem ?a ?ys) s = readSlice mem s"
    by (rule readSlice_writeCells)
  with True show ?thesis
    by (simp add: appendSlice_def Let_def)
next
  case False
  then show ?thesis
    by (simp add: appendSlice_def Let_def)
qed

lemma disjointCells_append:
  "disjointCells xs (ys @ zs) \<longleftrightarrow> disjointCells xs ys \<and> disjointCells xs zs"
  by (auto simp: disjointCells_def list_all_iff)

lemma ruleAt_after_append:
  "disjointCells (writtenCells rule) (readCells later) \<Longrightarrow>
   ruleAt (fst (appendSlice mem (IdentitiesSlice rule) (ServiceAccountsSlice rule))) later =
     ruleAt mem later"
  by (simp add: ruleAt_def readCells_def disjointCells_append readSlice_after_append)

lemma ruleAsRead_separate:
  "disjointCells (writtenCells rule) (cells (ToolsSlice rule)) \<Longrightarrow>
   ruleAsRead mem rule = ruleAt mem rule"
  by (simp add: ruleAsRead_def ruleAt_def readSlice_after_append)

lemma rulesAsRead_separate:
  "separate rules \<Longrightarrow> rulesAsRead mem rules = map (ruleAt mem) rules"
proof (induction rules arbitrary: mem)
  case Nil
  then show ?case by simp
next
  case (Cons rule rules)
  let ?mem' = "fst (appendSlice mem (IdentitiesSlice rule) (ServiceAccountsSlice rule))"
  from Cons.prems have "rulesAsRead ?mem' rules = map (ruleAt ?mem') rules"
    by (intro Cons.IH) simp
  also have "\<dots> = map (ruleAt mem) rules"
    using Cons.prems by (intro map_cong refl ruleAt_after_append) (simp add: list_all_iff)
  finally show ?case
    using Cons.prems by (simp add: ruleAsRead_separate)
qed

lemma translateAuthPolicyToRBACMem_separate:
  "separate rules \<Longrightarrow>
   translateAuthPolicyToRBACMem mem rules backend =
     translateAuthPolicyToRBAC
       \<lparr>Spec = \<lparr>TargetRef = targetRef, Rules = map (ruleAt mem) rules, Action = action\<rparr>\<rparr>
       backend"
  by (simp add: translateAuthPolicyToRBACMem_def translateRulesMem_reads
      translateAuthPolicyToRBAC_def rulesAsRead_separate)

lemma ruleAsRead_at_separate:
  "separate rules \<Longrightarrow> i < length rules \<Longrightarrow>
   ruleAsRead (memoryAt mem rules i) (rules ! i) = ruleAt mem (rules ! i)"
  using rulesAsRead_nth [of i rules mem] rulesAsRead_separate [of rules mem]
  by simp

section \<open>Action resolution and the baked-in policies\<close>

lemma find_none_targets:
  "list_all (\<lambda>p. \<not> targetsBackend backend p) allAuthPolicies \<Longrightarrow>
   find (targetsBackend backend) allAuthPolicies = None"
  by (simp add: find_None_iff list_all_iff)

lemma rbacActionFromAuthPolicy_allow: "rbacActionFromAuthPolicy authPolicy = RBAC_ALLOW"
  by (simp add: rbacActionFromAuthPolicy_def split: option.split)

lemma rbacConfigFromAuthPolicy_baked_in:
  assumes "rbacConfigFromAuthPolicy authPolicyLister backend = Inr cfg"
  shows "rbac_Action (rbac_Rules cfg) = RBAC_ALLOW"
    and "rbac_Policies (rbac_Rules cfg) allowMCPSessionClosePolicyName =
           Some buildAllowMCPSessionClosePolicy"
    and "rbac_Policies (rbac_Rules cfg) allowAnyoneToInitializeAndListToolsPolicyName =
           Some buildAllowAnyoneToInitializeAndListToolsPolicy"
proof -
  have names: "allowMCPSessionClosePolicyName \<noteq> allowAnyoneToInitializeAndListToolsPolicyName"
    by (simp add: allowMCPSessionClosePolicyName_def
        allowAnyoneToInitializeAndListToolsPolicyName_def)
  from assms obtain authPolicy where
    cfg: "cfg = \<lparr>rbac_Rules = \<lparr>rbac_Action = RBAC_ALLOW,
            rbac_Policies =
              (case authPolicy of None \<Rightarrow> Map.empty
               | Some p \<Rightarrow> translateAuthPolicyToRBAC p backend)
              (allowMCPSessionClosePolicyName \<mapsto> buildAllowMCPSessionClosePolicy,
               allowAnyoneToInitializeAndListToolsPolicyName \<mapsto>
                 buildAllowAnyoneToInitializeAndListToolsPolicy)\<rparr>\<rparr>"
    by (auto simp: rbacConfigFromAuthPolicy_def rbacActionFromAuthPolicy_allow Let_def
        split: sum.splits)
  show "rbac_Action (rbac_Rules cfg) = RBAC_ALLOW"
    by (simp add: cfg)
  show "rbac_Policies (rbac_Rules cfg) allowMCPSessionClosePolicyName =
           Some buildAllowMCPSessionClosePolicy"
    using names by (simp add: cfg)
  show "rbac_Policies (rbac_Rules cfg) allowAnyoneToInitializeAndListToolsPolicyName =
           Some buildAllowAnyoneToInitializeAndListToolsPolicy"
    by (simp add: cfg)
qed

lemma session_close_policy_match:
  "policy_match buildAllowMCPSessionClosePolicy r \<longleftrightarrow>
     headers r '':method'' = Some ''DELETE'' \<and> headers r ''mcp-session-id'' \<noteq> None"
  by (auto simp: policy_match_def permissions_match_def principals_match_def
      buildAllowMCPSessionClosePolicy_def mcpSessionIDHeader_def split: option.splits)

lemma initialize_policy_match:
  "policy_match buildAllowAnyoneToInitializeAndListToolsPolicy r \<longleftrightarrow>
     metadata r ''mcp_proxy'' [''method''] = Some ''initialize'' \<or>
     metadata r ''mcp_proxy'' [''method''] = Some ''notifications/initialized'' \<or>
     metadata r ''mcp_proxy'' [''method''] = Some ''tools/list'' \<or>
     headers r '':method'' = Some ''GET''"
  by (auto simp: policy_match_def permissions_match_def principals_match_def
      buildAllowAnyoneToInitializeAndListToolsPolicy_def mcpProxyFilterName_def
      initializeMethod_def initializedMethod_def toolsListMethod_def split: option.splits)

text \<open>
  A rule's name ends in a digit, so the baked-in policies never replace a rule's entry: in
  the configuration returned for a backend, every rule of the policy found for it keeps its
  entry.
\<close>

lemma last_Sprintf_d: "last (Sprintf_d n) = digit (n mod 10)"
  by (subst Sprintf_d.simps) simp

lemma digit_is_decimal: "d < 10 \<Longrightarrow> digit d \<in> set ''0123456789''"
  unfolding digit_def by (rule nth_mem) simp

lemma RBACPolicyName_ends_in_digit:
  "last (RBACPolicyName ns name i) \<in> set ''0123456789''"
proof -
  have "last (RBACPolicyName ns name i) = last (Sprintf_d i)"
    by (simp add: RBACPolicyName_def Sprintf_d_nonempty)
  also have "\<dots> = digit (i mod 10)"
    by (rule last_Sprintf_d)
  finally show ?thesis
    using digit_is_decimal [of "i mod 10"] by simp
qed

lemma RBACPolicyName_not_baked_in:
  "RBACPolicyName ns name i \<noteq> allowMCPSessionClosePolicyName"
  "RBACPolicyName ns name i \<noteq> allowAnyoneToInitializeAndListToolsPolicyName"
proof -
  show "RBACPolicyName ns name i \<noteq> allowMCPSessionClosePolicyName"
  proof
    assume "RBACPolicyName ns name i = allowMCPSessionClosePolicyName"
    with RBACPolicyName_ends_in_digit [of ns name i] show False
      by (simp add: allowMCPSessionClosePolicyName_def)
  qed
  show "RBACPolicyName ns name i \<noteq> allowAnyoneToInitializeAndListToolsPolicyName"
  proof
    assume "RBACPolicyName ns name i = allowAnyoneToInitializeAndListToolsPolicyName"
    with RBACPolicyName_ends_in_digit [of ns name i] show False
      by (simp add: allowAnyoneToInitializeAndListToolsPolicyName_def)
  qed
qed

lemma rbacConfigFromAuthPolicy_rule_entry:
  assumes listed: "authPolicyLister (Namespace backend) = Inr allAuthPolicies"
    and found: "find (targetsBackend backend) allAuthPolicies = Some authPolicy"
    and i: "i < length (Rules (Spec authPolicy))"
  shows "\<exists>cfg. rbacConfigFromAuthPolicy authPolicyLister backend = Inr cfg \<and>
           rbac_Policies (rbac_Rules cfg) (RBACPolicyName (Namespace backend) (Name backend) i) =
             Some (rulePolicy (Rules (Spec authPolicy) ! i))"
  using listed found translateAuthPolicyToRBAC_at [OF i, of backend]
    RBACPolicyName_not_baked_in [of "Namespace backend" "Name backend" i]
  by (simp add: rbacConfigFromAuthPolicy_def findAuthPolicyForBackend_def
      rbacActionFromAuthPolicy_allow)

section \<open>Which requests a compiled rule matches\<close>

lemma source_principals_match:
  "list_ex (\<lambda>p. principal_match p r) (map sourcePrincipal sources) \<longleftrightarrow>
     (\<exists>v \<in> set sources. headers r ''x-user-role'' = Some v)"
  by (induction sources) (auto simp: sourcePrincipal_def split: option.splits)

lemma tool_matchers_match:
  "list_ex (\<lambda>m. value_match m v) (map toolValueMatcher tools) \<longleftrightarrow> v \<in> set tools"
  by (induction tools) (auto simp: toolValueMatcher_def)

lemma rulePrincipals_nonempty:
  "Identities (Source rule) @ ServiceAccounts (Source rule) \<noteq> [] \<Longrightarrow>
   rulePrincipals rule =
     [Principal_OrIds (map sourcePrincipal (Identities (Source rule) @ ServiceAccounts (Source rule)))]"
  by (simp add: rulePrincipals_def Let_def)

lemma rulePrincipals_empty:
  "Identities (Source rule) = [] \<Longrightarrow> ServiceAccounts (Source rule) = [] \<Longrightarrow>
   rulePrincipals rule = []"
  by (simp add: rulePrincipals_def)

lemma toolsMatcher_cases:
  "(if length (map toolValueMatcher tools) = 1 then map toolValueMatcher tools ! 0
    else ValueMatcher_OrMatch (map toolValueMatcher tools)) =
   (case tools of
      [tool] \<Rightarrow> ValueMatcher_StringMatch (StringMatcher_Exact tool)
    | _ \<Rightarrow> ValueMatcher_OrMatch
             (map (\<lambda>tool. ValueMatcher_StringMatch (StringMatcher_Exact tool)) tools))"
  by (cases tools; cases "tl tools") (auto simp: toolValueMatcher_def split: list.splits)

lemma toolsMatcher_match:
  "tools \<noteq> [] \<Longrightarrow>
   value_match
     (if length (map toolValueMatcher tools) = 1 then map toolValueMatcher tools ! 0
      else ValueMatcher_OrMatch (map toolValueMatcher tools)) v \<longleftrightarrow> v \<in> set tools"
proof (cases "length (map toolValueMatcher tools) = 1")
  case True
  then obtain tool where "tools = [tool]"
    by (cases tools) auto
  then show ?thesis by (simp add: toolValueMatcher_def)
next
  case False
  then show ?thesis by (simp add: tool_matchers_match)
qed

lemma rulePermissions_nonempty:
  "Tools rule \<noteq> [] \<Longrightarrow>
   rulePermissions rule =
     [Permission_AndRules
        [Permission_SourcedMetadata
           (MetadataMatcher ''mcp_proxy'' [''method'']
              (ValueMatcher_StringMatch (StringMatcher_Exact ''tools/call''))),
         Permission_SourcedMetadata
           (MetadataMatcher ''mcp_proxy'' [''params'', ''name'']
              (case Tools rule of
                 [tool] \<Rightarrow> ValueMatcher_StringMatch (StringMatcher_Exact tool)
               | _ \<Rightarrow> ValueMatcher_OrMatch
                        (map (\<lambda>tool. ValueMatcher_StringMatch (StringMatcher_Exact tool))
                           (Tools rule))))]]"
  unfolding rulePermissions_def Let_def toolsMatcher_cases
  by (simp add: mcpProxyFilterName_def toolsCallMethod_def)

lemma rulePermissions_match:
  assumes "Tools rule \<noteq> []"
  shows "list_ex (\<lambda>p. permission_match p r) (rulePermissions rule) \<longleftrightarrow>
     metadata r ''mcp_proxy'' [''method''] = Some ''tools/call'' \<and>
     (\<exists>tool \<in> set (Tools rule). metadata r ''mcp_proxy'' [''params'', ''name''] = Some tool)"
proof -
  define toolsMatcher where "toolsMatcher =
    (if length (map toolValueMatcher (Tools rule)) = 1 then map toolValueMatcher (Tools rule) ! 0
     else ValueMatcher_OrMatch (map toolValueMatcher (Tools rule)))"
  have tools: "value_match toolsMatcher v \<longleftrightarrow> v \<in> set (Tools rule)" for v
    unfolding toolsMatcher_def using assms by (rule toolsMatcher_match)
  have "rulePermissions rule =
     [Permission_AndRules
        [Permission_SourcedMetadata
           (MetadataMatcher ''mcp_proxy'' [''method'']
              (ValueMatcher_StringMatch (StringMatcher_Exact ''tools/call''))),
         Permission_SourcedMetadata
           (MetadataMatcher ''mcp_proxy'' [''params'', ''name''] toolsMatcher)]]"
    unfolding rulePermissions_def Let_def toolsMatcher_def
    using assms by (simp add: mcpProxyFilterName_def toolsCallMethod_def)
  then show ?thesis
    by (auto simp: tools split: option.splits)
qed

lemma rbacConfigFromAuthPolicy_returns:
  "authPolicyLister (Namespace backend) = Inr allAuthPolicies \<Longrightarrow>
   \<exists>cfg. rbacConfigFromAuthPolicy authPolicyLister backend = Inr cfg"
  by (simp add: rbacConfigFromAuthPolicy_def findAuthPolicyForBackend_def Let_def)

section \<open>The example policy, compiled\<close>

lemma Sprintf_d_digits:
  "Sprintf_d 0 = ''0''" "Sprintf_d 1 = ''1''" "Sprintf_d (Suc 0) = ''1''" "Sprintf_d 2 = ''2''"
  by (simp_all add: Sprintf_d.simps digit_def)

lemma examplePolicy_compiled:
  "translateAuthPolicyToRBAC examplePolicy inClusterBackend ''ns-local-mcp-rule-0'' =
     Some (rulePolicy \<lparr>Source = exampleSource, Tools = [''add'', ''getTinyImage'']\<rparr>)"
  "translateAuthPolicyToRBAC examplePolicy inClusterBackend ''ns-local-mcp-rule-1'' =
     Some (rulePolicy \<lparr>Source = exampleSource, Tools = []\<rparr>)"
  "translateAuthPolicyToRBAC examplePolicy inClusterBackend ''ns-local-mcp-rule-2'' =
     Some (rulePolicy \<lparr>Source = \<lparr>Identities = [], ServiceAccounts = []\<rparr>, Tools = [''echo'']\<rparr>)"
  using translateAuthPolicyToRBAC_at [of 0 examplePolicy inClusterBackend]
    translateAuthPolicyToRBAC_at [of 1 examplePolicy inClusterBackend]
    translateAuthPolicyToRBAC_at [of 2 examplePolicy inClusterBackend]
  by (simp_all add: examplePolicy_def inClusterBackend_def RBACPolicyName_def Sprintf_d_digits)

lemma exampleRuleSlices_separate: "separate exampleRuleSlices"
  by (simp add: exampleRuleSlices_def writtenCells_def readCells_def cells_def
      disjointCells_def Let_def)

lemma exampleRuleSlices_read:
  "readSlice (memoryAt exampleMemory exampleRuleSlices 1) (IdentitiesSlice (exampleRuleSlices ! 1)) =
     [''spiffe://td/ns/default/sa/a'']"
  "readSlice (memoryAt exampleMemory exampleRuleSlices 1)
     (ServiceAccountsSlice (exampleRuleSlices ! 1)) = [''default/b'']"
  by (simp_all add: exampleRuleSlices_def exampleMemory_def readSlice_def cells_def
      appendSlice_def Let_def)

lemma sharedRuleSlices_read:
  "readSlice (memoryAt sharedMemory sharedRuleSlices 1) (IdentitiesSlice (sharedRuleSlices ! 1)) =
     [''a'', ''x'']"
  "readSlice (memoryAt sharedMemory sharedRuleSlices 1)
     (ServiceAccountsSlice (sharedRuleSlices ! 1)) = []"
  "readSlice sharedMemory (IdentitiesSlice (sharedRuleSlices ! 1)) = [''a'', ''b'']"
  by (simp_all add: sharedRuleSlices_def sharedMemory_def readSlice_def cells_def
      appendSlice_def Let_def upt_rec)


lemma sourcePrincipal_unfold:
  "sourcePrincipal =
     (\<lambda>source. Principal_Header
        (HeaderMatcher ''x-user-role'' (HeaderMatcher_StringMatch (StringMatcher_Exact source))))"
  by (rule ext) (simp add: sourcePrincipal_def)

lemma rulePrincipals_match:
  "list_ex (\<lambda>p. principal_match p r) (rulePrincipals rule) \<longleftrightarrow>
     (\<exists>source \<in> set (Identities (Source rule) @ ServiceAccounts (Source rule)).
        headers r ''x-user-role'' = Some source)"
  using source_principals_match [of r "Identities (Source rule) @ ServiceAccounts (Source rule)"]
  by (simp add: rulePrincipals_def Let_def)

section \<open>Results: the RBAC policy compiler\<close>

text \<open>
  Claim C1. For a backend that no AuthPolicy targets (the lister returns the policies of the
  backend's namespace and none of them targets the backend), \<open>rbacConfigFromAuthPolicy\<close>
  returns a configuration whose action is ALLOW and whose policy map holds the two baked-in
  policies under their fixed names. For an AuthPolicy whose declared action is not
  \<open>"ALLOW"\<close> (unset or unrecognised), \<open>rbacActionFromAuthPolicy\<close> resolves to ALLOW as well.
\<close>

theorem C1_no_policy_or_unknown_action_allows:
  "(authPolicyLister (Namespace backend) = Inr allAuthPolicies \<and>
    list_all (\<lambda>p. \<not> targetsBackend backend p) allAuthPolicies \<longrightarrow>
      rbacConfigFromAuthPolicy authPolicyLister backend =
        Inr \<lparr>rbac_Rules = \<lparr>rbac_Action = RBAC_ALLOW,
              rbac_Policies =
                [''allow-mcp-session-close'' \<mapsto> buildAllowMCPSessionClosePolicy,
                 ''allow-anyone-to-initialize-and-list-tools'' \<mapsto>
                   buildAllowAnyoneToInitializeAndListToolsPolicy]\<rparr>\<rparr>) \<and>
   (Action (Spec authPolicy) \<noteq> ''ALLOW'' \<longrightarrow>
      rbacActionFromAuthPolicy (Some authPolicy) = RBAC_ALLOW)"
  by (simp add: rbacConfigFromAuthPolicy_def findAuthPolicyForBackend_def find_none_targets
      rbacActionFromAuthPolicy_def allowMCPSessionClosePolicyName_def
      allowAnyoneToInitializeAndListToolsPolicyName_def)

theorem C1_witness:
  "rbacConfigFromAuthPolicy (\<lambda>ns. Inr []) \<lparr>Namespace = ''default'', Name = ''mcp'',
       MCP = \<lparr>ServiceName = ''svc'', Hostname = [], Port = 8080\<rparr>\<rparr> =
     Inr \<lparr>rbac_Rules = \<lparr>rbac_Action = RBAC_ALLOW,
           rbac_Policies =
             [''allow-mcp-session-close'' \<mapsto> buildAllowMCPSessionClosePolicy,
              ''allow-anyone-to-initialize-and-list-tools'' \<mapsto>
                buildAllowAnyoneToInitializeAndListToolsPolicy]\<rparr>\<rparr> \<and>
   rbacActionFromAuthPolicy
     (Some \<lparr>Spec = \<lparr>TargetRef = \<lparr>Group = ''agentic.networking.x-k8s.io'', Kind = ''Backend'',
                                  ref_Name = ''mcp''\<rparr>,
                     Rules = [], Action = ''DENY''\<rparr>\<rparr>) = RBAC_ALLOW"
  using C1_no_policy_or_unknown_action_allows
    [of "\<lambda>ns. Inr []" "\<lparr>Namespace = ''default'', Name = ''mcp'',
       MCP = \<lparr>ServiceName = ''svc'', Hostname = [], Port = 8080\<rparr>\<rparr>" "[]"
       "\<lparr>Spec = \<lparr>TargetRef = \<lparr>Group = ''agentic.networking.x-k8s.io'', Kind = ''Backend'',
                                  ref_Name = ''mcp''\<rparr>,
                     Rules = [], Action = ''DENY''\<rparr>\<rparr>"]
  by simp

text \<open>
  Claim C2. Whenever \<open>rbacConfigFromAuthPolicy\<close> returns a configuration with action ALLOW,
  its policy map holds the two baked-in policies under \<open>"allow-mcp-session-close"\<close> and
  \<open>"allow-anyone-to-initialize-and-list-tools"\<close>. The first has the single permission
  \<open>any\<close> and matches exactly the requests whose HTTP method is DELETE and whose
  \<open>mcp-session-id\<close> header is present. The second has the single principal \<open>any\<close> and
  matches exactly the requests whose method metadata is \<open>initialize\<close>,
  \<open>notifications/initialized\<close> or \<open>tools/list\<close>, or whose HTTP method is GET.
\<close>

theorem C2_baked_in_policies:
  "rbacConfigFromAuthPolicy authPolicyLister backend = Inr cfg \<and>
   rbac_Action (rbac_Rules cfg) = RBAC_ALLOW \<longrightarrow>
     rbac_Policies (rbac_Rules cfg) ''allow-mcp-session-close'' =
       Some buildAllowMCPSessionClosePolicy \<and>
     rbac_Policies (rbac_Rules cfg) ''allow-anyone-to-initialize-and-list-tools'' =
       Some buildAllowAnyoneToInitializeAndListToolsPolicy \<and>
     Permissions buildAllowMCPSessionClosePolicy = [Permission_Any True] \<and>
     (\<forall>r. policy_match buildAllowMCPSessionClosePolicy r \<longleftrightarrow>
        headers r '':method'' = Some ''DELETE'' \<and> headers r ''mcp-session-id'' \<noteq> None) \<and>
     Principals buildAllowAnyoneToInitializeAndListToolsPolicy = [Principal_Any True] \<and>
     (\<forall>r. policy_match buildAllowAnyoneToInitializeAndListToolsPolicy r \<longleftrightarrow>
        metadata r ''mcp_proxy'' [''method''] = Some ''initialize'' \<or>
        metadata r ''mcp_proxy'' [''method''] = Some ''notifications/initialized'' \<or>
        metadata r ''mcp_proxy'' [''method''] = Some ''tools/list'' \<or>
        headers r '':method'' = Some ''GET'')"
proof (intro impI, elim conjE)
  assume cfg: "rbacConfigFromAuthPolicy authPolicyLister backend = Inr cfg"
  have "rbac_Policies (rbac_Rules cfg) ''allow-mcp-session-close'' =
       Some buildAllowMCPSessionClosePolicy"
    using rbacConfigFromAuthPolicy_baked_in(2) [OF cfg]
    by (simp add: allowMCPSessionClosePolicyName_def)
  moreover have "rbac_Policies (rbac_Rules cfg) ''allow-anyone-to-initialize-and-list-tools'' =
       Some buildAllowAnyoneToInitializeAndListToolsPolicy"
    using rbacConfigFromAuthPolicy_baked_in(3) [OF cfg]
    by (simp add: allowAnyoneToInitializeAndListToolsPolicyName_def)
  moreover have "Permissions buildAllowMCPSessionClosePolicy = [Permission_Any True]"
    by (simp add: buildAllowMCPSessionClosePolicy_def)
  moreover have "Principals buildAllowAnyoneToInitializeAndListToolsPolicy = [Principal_Any True]"
    by (simp add: buildAllowAnyoneToInitializeAndListToolsPolicy_def)
  ultimately show "rbac_Policies (rbac_Rules cfg) ''allow-mcp-session-close'' =
       Some buildAllowMCPSessionClosePolicy \<and>
     rbac_Policies (rbac_Rules cfg) ''allow-anyone-to-initialize-and-list-tools'' =
       Some buildAllowAnyoneToInitializeAndListToolsPolicy \<and>
     Permissions buildAllowMCPSessionClosePolicy = [Permission_Any True] \<and>
     (\<forall>r. policy_match buildAllowMCPSessionClosePolicy r \<longleftrightarrow>
        headers r '':method'' = Some ''DELETE'' \<and> headers r ''mcp-session-id'' \<noteq> None) \<and>
     Principals buildAllowAnyoneToInitializeAndListToolsPolicy = [Principal_Any True] \<and>
     (\<forall>r. policy_match buildAllowAnyoneToInitializeAndListToolsPolicy r \<longleftrightarrow>
        metadata r ''mcp_proxy'' [''method''] = Some ''initialize'' \<or>
        metadata r ''mcp_proxy'' [''method''] = Some ''notifications/initialized'' \<or>
        metadata r ''mcp_proxy'' [''method''] = Some ''tools/list'' \<or>
        headers r '':method'' = Some ''GET'')"
    using session_close_policy_match initialize_policy_match by simp
qed

theorem C2_witness:
  "(\<exists>cfg.
      rbacConfigFromAuthPolicy exampleLister inClusterBackend = Inr cfg \<and>
      rbac_Action (rbac_Rules cfg) = RBAC_ALLOW \<and>
      rbac_Policies (rbac_Rules cfg) ''allow-mcp-session-close'' =
        Some buildAllowMCPSessionClosePolicy \<and>
      rbac_Policies (rbac_Rules cfg) ''allow-anyone-to-initialize-and-list-tools'' =
        Some buildAllowAnyoneToInitializeAndListToolsPolicy) \<and>
   policy_match buildAllowMCPSessionClosePolicy
     (httpRequest ''DELETE'' [(''mcp-session-id'', ''4f2a'')]) \<and>
   \<not> policy_match buildAllowMCPSessionClosePolicy (httpRequest ''DELETE'' []) \<and>
   \<not> policy_match buildAllowMCPSessionClosePolicy
     (httpRequest ''POST'' [(''mcp-session-id'', ''4f2a'')]) \<and>
   policy_match buildAllowAnyoneToInitializeAndListToolsPolicy (httpRequest ''GET'' []) \<and>
   policy_match buildAllowAnyoneToInitializeAndListToolsPolicy
     (mcpRequest ''anyone'' ''initialize'' []) \<and>
   policy_match buildAllowAnyoneToInitializeAndListToolsPolicy
     (mcpRequest ''anyone'' ''notifications/initialized'' []) \<and>
   policy_match buildAllowAnyoneToInitializeAndListToolsPolicy
     (mcpRequest ''anyone'' ''tools/list'' []) \<and>
   \<not> policy_match buildAllowAnyoneToInitializeAndListToolsPolicy
     (mcpRequest ''anyone'' ''tools/call'' ''echo'')"
proof -
  obtain cfg where run: "rbacConfigFromAuthPolicy exampleLister inClusterBackend = Inr cfg"
    using rbacConfigFromAuthPolicy_returns [of exampleLister inClusterBackend "[examplePolicy]"]
    by (auto simp: exampleLister_def inClusterBackend_def)
  have allow: "rbac_Action (rbac_Rules cfg) = RBAC_ALLOW"
    using run
    by (auto simp: rbacConfigFromAuthPolicy_def rbacActionFromAuthPolicy_allow Let_def
        split: sum.splits)
  note facts = C2_baked_in_policies [of exampleLister inClusterBackend cfg, rule_format,
      OF conjI [OF run allow]]
  have "\<exists>cfg.
      rbacConfigFromAuthPolicy exampleLister inClusterBackend = Inr cfg \<and>
      rbac_Action (rbac_Rules cfg) = RBAC_ALLOW \<and>
      rbac_Policies (rbac_Rules cfg) ''allow-mcp-session-close'' =
        Some buildAllowMCPSessionClosePolicy \<and>
      rbac_Policies (rbac_Rules cfg) ''allow-anyone-to-initialize-and-list-tools'' =
        Some buildAllowAnyoneToInitializeAndListToolsPolicy"
    using run allow facts by blast
  moreover have close: "policy_match buildAllowMCPSessionClosePolicy r \<longleftrightarrow>
      headers r '':method'' = Some ''DELETE'' \<and> headers r ''mcp-session-id'' \<noteq> None" for r
    using facts by blast
  moreover have init: "policy_match buildAllowAnyoneToInitializeAndListToolsPolicy r \<longleftrightarrow>
        metadata r ''mcp_proxy'' [''method''] = Some ''initialize'' \<or>
        metadata r ''mcp_proxy'' [''method''] = Some ''notifications/initialized'' \<or>
        metadata r ''mcp_proxy'' [''method''] = Some ''tools/list'' \<or>
        headers r '':method'' = Some ''GET''" for r
    using facts by blast
  ultimately show ?thesis
    by (simp add: httpRequest_def mcpRequest_def)
qed

text \<open>
  Claim C3. For a rule at index \<open>i\<close> with a non-empty tool list, the policy stored under the
  rule's name has exactly one permission: the conjunction of "method metadata equals
  \<open>tools/call\<close>" and "\<open>params.name\<close> metadata matches the tools", where the tool matcher is
  a single exact match for one tool and a disjunction of exact matches otherwise. So the
  permission matches a request exactly when it is a \<open>tools/call\<close> naming one of the listed
  tools; with tools \<open>add\<close> and \<open>getTinyImage\<close> it matches calls of those two and not of
  \<open>echo\<close>.
\<close>

theorem C3_tools_permission:
  "i < length (Rules (Spec authPolicy)) \<and> rule = Rules (Spec authPolicy) ! i \<and>
   Tools rule \<noteq> [] \<longrightarrow>
     (\<exists>policy.
        translateAuthPolicyToRBAC authPolicy backend
          (Namespace backend @ ''-'' @ Name backend @ ''-rule-'' @ Sprintf_d i) = Some policy \<and>
        Permissions policy =
          [Permission_AndRules
             [Permission_SourcedMetadata
                (MetadataMatcher ''mcp_proxy'' [''method'']
                   (ValueMatcher_StringMatch (StringMatcher_Exact ''tools/call''))),
              Permission_SourcedMetadata
                (MetadataMatcher ''mcp_proxy'' [''params'', ''name'']
                   (case Tools rule of
                      [tool] \<Rightarrow> ValueMatcher_StringMatch (StringMatcher_Exact tool)
                    | _ \<Rightarrow> ValueMatcher_OrMatch
                             (map (\<lambda>tool. ValueMatcher_StringMatch (StringMatcher_Exact tool))
                                (Tools rule))))]] \<and>
        (\<forall>r. permissions_match policy r \<longleftrightarrow>
           metadata r ''mcp_proxy'' [''method''] = Some ''tools/call'' \<and>
           (\<exists>tool \<in> set (Tools rule).
              metadata r ''mcp_proxy'' [''params'', ''name''] = Some tool)))"
proof (intro impI, elim conjE)
  assume i: "i < length (Rules (Spec authPolicy))"
    and rule: "rule = Rules (Spec authPolicy) ! i"
    and tools: "Tools rule \<noteq> []"
  have stored: "translateAuthPolicyToRBAC authPolicy backend
      (Namespace backend @ ''-'' @ Name backend @ ''-rule-'' @ Sprintf_d i) = Some (rulePolicy rule)"
    using translateAuthPolicyToRBAC_at [OF i, of backend] rule
    by (simp add: RBACPolicyName_def)
  have shape: "Permissions (rulePolicy rule) = rulePermissions rule"
    by (simp add: rulePolicy_def)
  show "\<exists>policy.
        translateAuthPolicyToRBAC authPolicy backend
          (Namespace backend @ ''-'' @ Name backend @ ''-rule-'' @ Sprintf_d i) = Some policy \<and>
        Permissions policy =
          [Permission_AndRules
             [Permission_SourcedMetadata
                (MetadataMatcher ''mcp_proxy'' [''method'']
                   (ValueMatcher_StringMatch (StringMatcher_Exact ''tools/call''))),
              Permission_SourcedMetadata
                (MetadataMatcher ''mcp_proxy'' [''params'', ''name'']
                   (case Tools rule of
                      [tool] \<Rightarrow> ValueMatcher_StringMatch (StringMatcher_Exact tool)
                    | _ \<Rightarrow> ValueMatcher_OrMatch
                             (map (\<lambda>tool. ValueMatcher_StringMatch (StringMatcher_Exact tool))
                                (Tools rule))))]] \<and>
        (\<forall>r. permissions_match policy r \<longleftrightarrow>
           metadata r ''mcp_proxy'' [''method''] = Some ''tools/call'' \<and>
           (\<exists>tool \<in> set (Tools rule).
              metadata r ''mcp_proxy'' [''params'', ''name''] = Some tool))"
  proof (intro exI conjI allI)
    show "translateAuthPolicyToRBAC authPolicy backend
      (Namespace backend @ ''-'' @ Name backend @ ''-rule-'' @ Sprintf_d i) = Some (rulePolicy rule)"
      by (rule stored)
    show "Permissions (rulePolicy rule) =
          [Permission_AndRules
             [Permission_SourcedMetadata
                (MetadataMatcher ''mcp_proxy'' [''method'']
                   (ValueMatcher_StringMatch (StringMatcher_Exact ''tools/call''))),
              Permission_SourcedMetadata
                (MetadataMatcher ''mcp_proxy'' [''params'', ''name'']
                   (case Tools rule of
                      [tool] \<Rightarrow> ValueMatcher_StringMatch (StringMatcher_Exact tool)
                    | _ \<Rightarrow> ValueMatcher_OrMatch
                             (map (\<lambda>tool. ValueMatcher_StringMatch (StringMatcher_Exact tool))
                                (Tools rule))))]]"
      unfolding shape by (rule rulePermissions_nonempty [OF tools])
    show "permissions_match (rulePolicy rule) r \<longleftrightarrow>
           metadata r ''mcp_proxy'' [''method''] = Some ''tools/call'' \<and>
           (\<exists>tool \<in> set (Tools rule).
              metadata r ''mcp_proxy'' [''params'', ''name''] = Some tool)" for r
      unfolding permissions_match_def shape by (rule rulePermissions_match [OF tools])
  qed
qed

theorem C3_witness:
  "\<exists>policy.
      translateAuthPolicyToRBAC examplePolicy inClusterBackend ''ns-local-mcp-rule-0'' =
        Some policy \<and>
      permissions_match policy (mcpRequest ''default/b'' ''tools/call'' ''add'') \<and>
      permissions_match policy (mcpRequest ''default/b'' ''tools/call'' ''getTinyImage'') \<and>
      \<not> permissions_match policy (mcpRequest ''default/b'' ''tools/call'' ''echo'') \<and>
      \<not> permissions_match policy (mcpRequest ''default/b'' ''tools/list'' ''add'')"
proof -
  have zero: "Sprintf_d 0 = ''0''"
    by (simp add: Sprintf_d.simps digit_def)
  from C3_tools_permission
    [of 0 examplePolicy "\<lparr>Source = exampleSource, Tools = [''add'', ''getTinyImage'']\<rparr>"
        inClusterBackend]
  obtain policy where
    stored: "translateAuthPolicyToRBAC examplePolicy inClusterBackend ''ns-local-mcp-rule-0'' =
      Some policy"
    and matches: "\<And>r. permissions_match policy r \<longleftrightarrow>
      metadata r ''mcp_proxy'' [''method''] = Some ''tools/call'' \<and>
      (metadata r ''mcp_proxy'' [''params'', ''name''] = Some ''add'' \<or>
       metadata r ''mcp_proxy'' [''params'', ''name''] = Some ''getTinyImage'')"
    by (auto simp: zero examplePolicy_def inClusterBackend_def)
  show ?thesis
    by (rule exI [of _ policy]) (simp add: stored matches mcpRequest_def)
qed

text \<open>
  Claim C4. The claim gives every rule's entry one OR set of exact matches as its principal.
  The loop builds that principal only under \<open>len(allSources) > 0\<close>. For a policy whose only
  rule names no identity and no service account (and allows the tool \<open>echo\<close>), the entry
  stored under \<open>"ns-local-mcp-rule-0"\<close> has an empty principal list, on lists and on slices
  alike, so there is no OR principal in it; the documentation of \<open>Source\<close> says that a rule
  without a source matches any source.
\<close>

theorem C4_empty_source_has_no_principal:
  "translateAuthPolicyToRBAC emptySourcePolicy inClusterBackend ''ns-local-mcp-rule-0'' =
     Some \<lparr>Principals = [],
           Permissions =
             [Permission_AndRules
                [Permission_SourcedMetadata
                   (MetadataMatcher ''mcp_proxy'' [''method'']
                      (ValueMatcher_StringMatch (StringMatcher_Exact ''tools/call''))),
                 Permission_SourcedMetadata
                   (MetadataMatcher ''mcp_proxy'' [''params'', ''name'']
                      (ValueMatcher_StringMatch (StringMatcher_Exact ''echo'')))]]\<rparr> \<and>
   translateAuthPolicyToRBACMem (\<lambda>a. ''echo'')
     [\<lparr>IdentitiesSlice = \<lparr>slice_ptr = 0, slice_len = 0, slice_cap = 0\<rparr>,
       ServiceAccountsSlice = \<lparr>slice_ptr = 0, slice_len = 0, slice_cap = 0\<rparr>,
       ToolsSlice = \<lparr>slice_ptr = 0, slice_len = 1, slice_cap = 1\<rparr>\<rparr>]
     inClusterBackend ''ns-local-mcp-rule-0'' =
   translateAuthPolicyToRBAC emptySourcePolicy inClusterBackend ''ns-local-mcp-rule-0'' \<and>
   \<not> (\<exists>policy ids.
        translateAuthPolicyToRBAC emptySourcePolicy inClusterBackend ''ns-local-mcp-rule-0'' =
          Some policy \<and>
        Principals policy = [Principal_OrIds ids])"
proof -
  have on_lists: "translateAuthPolicyToRBAC emptySourcePolicy inClusterBackend
      ''ns-local-mcp-rule-0'' =
      Some (rulePolicy \<lparr>Source = \<lparr>Identities = [], ServiceAccounts = []\<rparr>, Tools = [''echo'']\<rparr>)"
    using translateAuthPolicyToRBAC_at [of 0 emptySourcePolicy inClusterBackend]
    by (simp add: emptySourcePolicy_def inClusterBackend_def RBACPolicyName_def Sprintf_d_digits)
  have on_slices: "translateAuthPolicyToRBACMem (\<lambda>a. ''echo'')
     [\<lparr>IdentitiesSlice = \<lparr>slice_ptr = 0, slice_len = 0, slice_cap = 0\<rparr>,
       ServiceAccountsSlice = \<lparr>slice_ptr = 0, slice_len = 0, slice_cap = 0\<rparr>,
       ToolsSlice = \<lparr>slice_ptr = 0, slice_len = 1, slice_cap = 1\<rparr>\<rparr>]
     inClusterBackend ''ns-local-mcp-rule-0'' =
      Some (rulePolicy \<lparr>Source = \<lparr>Identities = [], ServiceAccounts = []\<rparr>, Tools = [''echo'']\<rparr>)"
    using translateAuthPolicyToRBACMem_at
      [of 0 "[\<lparr>IdentitiesSlice = \<lparr>slice_ptr = 0, slice_len = 0, slice_cap = 0\<rparr>,
       ServiceAccountsSlice = \<lparr>slice_ptr = 0, slice_len = 0, slice_cap = 0\<rparr>,
       ToolsSlice = \<lparr>slice_ptr = 0, slice_len = 1, slice_cap = 1\<rparr>\<rparr>]" "\<lambda>a. ''echo''"
       inClusterBackend]
    by (simp add: inClusterBackend_def RBACPolicyName_def Sprintf_d_digits ruleAsRead_def
        readSlice_def cells_def appendSlice_def Let_def)
  have compiled: "rulePolicy
      \<lparr>Source = \<lparr>Identities = [], ServiceAccounts = []\<rparr>, Tools = [''echo'']\<rparr> =
      \<lparr>Principals = [],
       Permissions =
         [Permission_AndRules
            [Permission_SourcedMetadata
               (MetadataMatcher ''mcp_proxy'' [''method'']
                  (ValueMatcher_StringMatch (StringMatcher_Exact ''tools/call''))),
             Permission_SourcedMetadata
               (MetadataMatcher ''mcp_proxy'' [''params'', ''name'']
                  (ValueMatcher_StringMatch (StringMatcher_Exact ''echo'')))]]\<rparr>"
    by (simp add: rulePolicy_def rulePrincipals_def rulePermissions_def toolValueMatcher_def
        mcpProxyFilterName_def toolsCallMethod_def)
  show ?thesis
    unfolding on_slices on_lists compiled by simp
qed

text \<open>
  Claim C5. For a rule with an empty tool list, the policy map still has an entry under the
  rule's name. Its principals are compiled from the rule's source as the loop reads it: none
  when the source is empty, otherwise one OR set of exact matches on the \<open>x-user-role\<close>
  header, one for each identity followed by one for each service account, so the principals
  match exactly the callers listed. Whenever the rules are separate, the lists read are the
  ones the policy held when the call started. The permission list of the entry is empty, so
  the entry matches no request. The entry is present, which differs from leaving the rule
  out.
\<close>

theorem C5_empty_tools_policy:
  "i < length rules \<and> slice_len (ToolsSlice (rules ! i)) = 0 \<and>
   sources =
     readSlice (memoryAt mem rules i) (IdentitiesSlice (rules ! i)) @
     readSlice (memoryAt mem rules i) (ServiceAccountsSlice (rules ! i)) \<longrightarrow>
     (\<exists>policy.
        translateAuthPolicyToRBACMem mem rules backend
          (Namespace backend @ ''-'' @ Name backend @ ''-rule-'' @ Sprintf_d i) = Some policy \<and>
        Principals policy =
          (if sources = [] then []
           else [Principal_OrIds
                   (map (\<lambda>source. Principal_Header
                           (HeaderMatcher ''x-user-role''
                              (HeaderMatcher_StringMatch (StringMatcher_Exact source))))
                      sources)]) \<and>
        (\<forall>r. principals_match policy r \<longleftrightarrow>
           (\<exists>source \<in> set sources. headers r ''x-user-role'' = Some source)) \<and>
        Permissions policy = [] \<and>
        (\<forall>r. \<not> permissions_match policy r) \<and>
        (\<forall>r. \<not> policy_match policy r) \<and>
        (separate rules \<longrightarrow>
           sources =
             readSlice mem (IdentitiesSlice (rules ! i)) @
             readSlice mem (ServiceAccountsSlice (rules ! i))))"
proof (intro impI, elim conjE)
  assume i: "i < length rules"
    and tools: "slice_len (ToolsSlice (rules ! i)) = 0"
    and sources: "sources =
     readSlice (memoryAt mem rules i) (IdentitiesSlice (rules ! i)) @
     readSlice (memoryAt mem rules i) (ServiceAccountsSlice (rules ! i))"
  let ?rule = "ruleAsRead (memoryAt mem rules i) (rules ! i)"
  have stored: "translateAuthPolicyToRBACMem mem rules backend
      (Namespace backend @ ''-'' @ Name backend @ ''-rule-'' @ Sprintf_d i) =
      Some (rulePolicy ?rule)"
    using translateAuthPolicyToRBACMem_at [OF i, of mem backend]
    by (simp add: RBACPolicyName_def)
  have read: "Identities (Source ?rule) @ ServiceAccounts (Source ?rule) = sources"
    by (simp add: ruleAsRead_def sources)
  have no_tools: "Tools ?rule = []"
    using tools by (simp add: ruleAsRead_def readSlice_def cells_def)
  have principals: "Principals (rulePolicy ?rule) =
          (if sources = [] then []
           else [Principal_OrIds
                   (map (\<lambda>source. Principal_Header
                           (HeaderMatcher ''x-user-role''
                              (HeaderMatcher_StringMatch (StringMatcher_Exact source))))
                      sources)])"
    using read by (simp add: rulePolicy_def rulePrincipals_def Let_def sourcePrincipal_unfold)
  have callers: "principals_match (rulePolicy ?rule) r \<longleftrightarrow>
      (\<exists>source \<in> set sources. headers r ''x-user-role'' = Some source)" for r
    using rulePrincipals_match [of r ?rule] read
    by (simp add: principals_match_def rulePolicy_def)
  have permissions: "Permissions (rulePolicy ?rule) = []"
    using no_tools by (simp add: rulePolicy_def rulePermissions_def)
  have no_permission: "\<not> permissions_match (rulePolicy ?rule) r" for r
    by (simp add: permissions_match_def permissions)
  then have inert: "\<not> policy_match (rulePolicy ?rule) r" for r
    by (simp add: policy_match_def)
  have initial: "sources =
      readSlice mem (IdentitiesSlice (rules ! i)) @
      readSlice mem (ServiceAccountsSlice (rules ! i))"
    if "separate rules"
    using ruleAsRead_at_separate [OF that i, of mem] read
    by (simp add: ruleAt_def ruleAsRead_def)
  show "\<exists>policy.
        translateAuthPolicyToRBACMem mem rules backend
          (Namespace backend @ ''-'' @ Name backend @ ''-rule-'' @ Sprintf_d i) = Some policy \<and>
        Principals policy =
          (if sources = [] then []
           else [Principal_OrIds
                   (map (\<lambda>source. Principal_Header
                           (HeaderMatcher ''x-user-role''
                              (HeaderMatcher_StringMatch (StringMatcher_Exact source))))
                      sources)]) \<and>
        (\<forall>r. principals_match policy r \<longleftrightarrow>
           (\<exists>source \<in> set sources. headers r ''x-user-role'' = Some source)) \<and>
        Permissions policy = [] \<and>
        (\<forall>r. \<not> permissions_match policy r) \<and>
        (\<forall>r. \<not> policy_match policy r) \<and>
        (separate rules \<longrightarrow>
           sources =
             readSlice mem (IdentitiesSlice (rules ! i)) @
             readSlice mem (ServiceAccountsSlice (rules ! i)))"
  proof (intro exI conjI allI impI)
    show "translateAuthPolicyToRBACMem mem rules backend
        (Namespace backend @ ''-'' @ Name backend @ ''-rule-'' @ Sprintf_d i) =
        Some (rulePolicy ?rule)"
      by (rule stored)
    show "Principals (rulePolicy ?rule) =
          (if sources = [] then []
           else [Principal_OrIds
                   (map (\<lambda>source. Principal_Header
                           (HeaderMatcher ''x-user-role''
                              (HeaderMatcher_StringMatch (StringMatcher_Exact source))))
                      sources)])"
      by (rule principals)
    show "principals_match (rulePolicy ?rule) r \<longleftrightarrow>
        (\<exists>source \<in> set sources. headers r ''x-user-role'' = Some source)" for r
      by (rule callers)
    show "Permissions (rulePolicy ?rule) = []"
      by (rule permissions)
    show "\<not> permissions_match (rulePolicy ?rule) r" for r
      by (rule no_permission)
    show "\<not> policy_match (rulePolicy ?rule) r" for r
      by (rule inert)
    show "sources =
        readSlice mem (IdentitiesSlice (rules ! i)) @
        readSlice mem (ServiceAccountsSlice (rules ! i))"
      if "separate rules"
      using that by (rule initial)
  qed
qed

theorem C5_witness:
  "(\<exists>policy.
      translateAuthPolicyToRBACMem exampleMemory exampleRuleSlices inClusterBackend
        ''ns-local-mcp-rule-1'' = Some policy \<and>
      Principals policy =
        [Principal_OrIds
           [Principal_Header
              (HeaderMatcher ''x-user-role''
                 (HeaderMatcher_StringMatch (StringMatcher_Exact ''spiffe://td/ns/default/sa/a''))),
            Principal_Header
              (HeaderMatcher ''x-user-role''
                 (HeaderMatcher_StringMatch (StringMatcher_Exact ''default/b'')))]] \<and>
      principals_match policy (mcpRequest ''default/b'' ''tools/call'' ''add'') \<and>
      \<not> principals_match policy (mcpRequest ''default/c'' ''tools/call'' ''add'') \<and>
      Permissions policy = [] \<and>
      \<not> policy_match policy (mcpRequest ''default/b'' ''tools/call'' ''add'')) \<and>
   separate exampleRuleSlices \<and>
   readSlice exampleMemory (IdentitiesSlice (exampleRuleSlices ! 1)) @
   readSlice exampleMemory (ServiceAccountsSlice (exampleRuleSlices ! 1)) =
     [''spiffe://td/ns/default/sa/a'', ''default/b''] \<and>
   (\<exists>policy.
      translateAuthPolicyToRBACMem sharedMemory sharedRuleSlices inClusterBackend
        ''ns-local-mcp-rule-1'' = Some policy \<and>
      Principals policy =
        [Principal_OrIds
           [Principal_Header
              (HeaderMatcher ''x-user-role''
                 (HeaderMatcher_StringMatch (StringMatcher_Exact ''a''))),
            Principal_Header
              (HeaderMatcher ''x-user-role''
                 (HeaderMatcher_StringMatch (StringMatcher_Exact ''x'')))]] \<and>
      Permissions policy = [])"
proof (intro conjI)
  from C5_empty_tools_policy
    [of 1 exampleRuleSlices "[''spiffe://td/ns/default/sa/a'', ''default/b'']" exampleMemory
        inClusterBackend]
  obtain policy where
    stored: "translateAuthPolicyToRBACMem exampleMemory exampleRuleSlices inClusterBackend
        ''ns-local-mcp-rule-1'' = Some policy"
    and shape: "Principals policy =
        [Principal_OrIds
           [Principal_Header
              (HeaderMatcher ''x-user-role''
                 (HeaderMatcher_StringMatch (StringMatcher_Exact ''spiffe://td/ns/default/sa/a''))),
            Principal_Header
              (HeaderMatcher ''x-user-role''
                 (HeaderMatcher_StringMatch (StringMatcher_Exact ''default/b'')))]]"
    and callers: "\<And>r. principals_match policy r \<longleftrightarrow>
        headers r ''x-user-role'' = Some ''spiffe://td/ns/default/sa/a'' \<or>
        headers r ''x-user-role'' = Some ''default/b''"
    and empty: "Permissions policy = []"
    and inert: "\<And>r. \<not> policy_match policy r"
    and initial: "separate exampleRuleSlices \<longrightarrow>
        [''spiffe://td/ns/default/sa/a'', ''default/b''] =
        readSlice exampleMemory (IdentitiesSlice (exampleRuleSlices ! 1)) @
        readSlice exampleMemory (ServiceAccountsSlice (exampleRuleSlices ! 1))"
    using exampleRuleSlices_read
    by (auto simp: Sprintf_d_digits inClusterBackend_def exampleRuleSlices_def)
  show "\<exists>policy.
      translateAuthPolicyToRBACMem exampleMemory exampleRuleSlices inClusterBackend
        ''ns-local-mcp-rule-1'' = Some policy \<and>
      Principals policy =
        [Principal_OrIds
           [Principal_Header
              (HeaderMatcher ''x-user-role''
                 (HeaderMatcher_StringMatch (StringMatcher_Exact ''spiffe://td/ns/default/sa/a''))),
            Principal_Header
              (HeaderMatcher ''x-user-role''
                 (HeaderMatcher_StringMatch (StringMatcher_Exact ''default/b'')))]] \<and>
      principals_match policy (mcpRequest ''default/b'' ''tools/call'' ''add'') \<and>
      \<not> principals_match policy (mcpRequest ''default/c'' ''tools/call'' ''add'') \<and>
      Permissions policy = [] \<and>
      \<not> policy_match policy (mcpRequest ''default/b'' ''tools/call'' ''add'')"
    by (rule exI [of _ policy]) (simp add: stored shape callers empty inert mcpRequest_def)
  show separate: "separate exampleRuleSlices"
    by (rule exampleRuleSlices_separate)
  from initial separate
  show "readSlice exampleMemory (IdentitiesSlice (exampleRuleSlices ! 1)) @
      readSlice exampleMemory (ServiceAccountsSlice (exampleRuleSlices ! 1)) =
      [''spiffe://td/ns/default/sa/a'', ''default/b'']"
    by simp
  from C5_empty_tools_policy
    [of 1 sharedRuleSlices "[''a'', ''x'']" sharedMemory inClusterBackend]
  obtain policy where
    "translateAuthPolicyToRBACMem sharedMemory sharedRuleSlices inClusterBackend
        ''ns-local-mcp-rule-1'' = Some policy"
    and "Principals policy =
        [Principal_OrIds
           [Principal_Header
              (HeaderMatcher ''x-user-role''
                 (HeaderMatcher_StringMatch (StringMatcher_Exact ''a''))),
            Principal_Header
              (HeaderMatcher ''x-user-role''
                 (HeaderMatcher_StringMatch (StringMatcher_Exact ''x'')))]]"
    and "Permissions policy = []"
    using sharedRuleSlices_read
    by (auto simp: Sprintf_d_digits inClusterBackend_def sharedRuleSlices_def)
  then show "\<exists>policy.
      translateAuthPolicyToRBACMem sharedMemory sharedRuleSlices inClusterBackend
        ''ns-local-mcp-rule-1'' = Some policy \<and>
      Principals policy =
        [Principal_OrIds
           [Principal_Header
              (HeaderMatcher ''x-user-role''
                 (HeaderMatcher_StringMatch (StringMatcher_Exact ''a''))),
            Principal_Header
              (HeaderMatcher ''x-user-role''
                 (HeaderMatcher_StringMatch (StringMatcher_Exact ''x'')))]] \<and>
      Permissions policy = []"
    by blast
qed

text \<open>
  Claim C10. For a rule whose source has neither identities nor service accounts, the entry
  stored under the rule's name has an empty principal list: no principal is emitted, in
  particular no match-anything principal, and the entry matches no request.
\<close>

theorem C10_empty_source_no_principal:
  "i < length (Rules (Spec authPolicy)) \<and> rule = Rules (Spec authPolicy) ! i \<and>
   Identities (Source rule) = [] \<and> ServiceAccounts (Source rule) = [] \<longrightarrow>
     (\<exists>policy.
        translateAuthPolicyToRBAC authPolicy backend
          (Namespace backend @ ''-'' @ Name backend @ ''-rule-'' @ Sprintf_d i) = Some policy \<and>
        Principals policy = [] \<and>
        (\<forall>r. \<not> principals_match policy r) \<and>
        (\<forall>r. \<not> policy_match policy r))"
proof (intro impI, elim conjE)
  assume i: "i < length (Rules (Spec authPolicy))"
    and rule: "rule = Rules (Spec authPolicy) ! i"
    and ids: "Identities (Source rule) = []"
    and sas: "ServiceAccounts (Source rule) = []"
  have stored: "translateAuthPolicyToRBAC authPolicy backend
      (Namespace backend @ ''-'' @ Name backend @ ''-rule-'' @ Sprintf_d i) = Some (rulePolicy rule)"
    using translateAuthPolicyToRBAC_at [OF i, of backend] rule
    by (simp add: RBACPolicyName_def)
  have principals: "Principals (rulePolicy rule) = []"
    using rulePrincipals_empty [OF ids sas] by (simp add: rulePolicy_def)
  have nobody: "\<not> principals_match (rulePolicy rule) r" for r
    by (simp add: principals_match_def principals)
  then have inert: "\<not> policy_match (rulePolicy rule) r" for r
    by (simp add: policy_match_def)
  show "\<exists>policy.
        translateAuthPolicyToRBAC authPolicy backend
          (Namespace backend @ ''-'' @ Name backend @ ''-rule-'' @ Sprintf_d i) = Some policy \<and>
        Principals policy = [] \<and>
        (\<forall>r. \<not> principals_match policy r) \<and>
        (\<forall>r. \<not> policy_match policy r)"
  proof (intro exI conjI allI)
    show "translateAuthPolicyToRBAC authPolicy backend
        (Namespace backend @ ''-'' @ Name backend @ ''-rule-'' @ Sprintf_d i) =
      Some (rulePolicy rule)"
      by (rule stored)
  qed (simp_all add: principals nobody inert)
qed

theorem C10_witness:
  "\<exists>policy.
      translateAuthPolicyToRBAC examplePolicy inClusterBackend ''ns-local-mcp-rule-2'' =
        Some policy \<and>
      Principals policy = [] \<and>
      \<not> policy_match policy (mcpRequest ''default/b'' ''tools/call'' ''echo'')"
proof -
  from C10_empty_source_no_principal
    [of 2 examplePolicy
        "\<lparr>Source = \<lparr>Identities = [], ServiceAccounts = []\<rparr>, Tools = [''echo'']\<rparr>"
        inClusterBackend]
  obtain policy where
    "translateAuthPolicyToRBAC examplePolicy inClusterBackend ''ns-local-mcp-rule-2'' =
      Some policy"
    and "Principals policy = []"
    and "\<And>r. \<not> policy_match policy r"
    by (auto simp: Sprintf_d_digits examplePolicy_def inClusterBackend_def)
  then show ?thesis by blast
qed

section \<open>Results: the connectivity compiler\<close>

lemma uint32_in_range: "0 \<le> x \<Longrightarrow> x < 2 ^ 32 \<Longrightarrow> uint (uint32 x) = x"
  by (simp add: uint32_def uint_word_of_int take_bit_int_eq_self)

text \<open>
  Claim C6. The cluster compiled from a backend is named \<open>"<namespace>-<name>"\<close>. With a
  service name, it uses strict DNS, its load assignment is built for the endpoint
  \<open>"<service>.<namespace>.svc.cluster.local"\<close> on the configured port, and it has no transport
  socket. Without a service name, it uses logical DNS, its load assignment is built for the
  hostname on the configured port, and whenever a cluster is returned it carries the TLS
  transport socket packed from a context whose SNI is the hostname; a cluster is returned
  whenever packing succeeds. The port handed on is the \<open>uint32\<close> conversion of the
  configured port, which is the port itself for every value from 0 up to \<open>2^32 - 1\<close>.
\<close>

theorem C6_cluster_of_backend:
  "(ServiceName (MCP backend) \<noteq> [] \<longrightarrow>
      convertBackendToCluster createClusterLoadAssignment anypb_New backend =
        Inr \<lparr>cluster_Name = Namespace backend @ ''-'' @ Name backend,
             ConnectTimeout = 5000000000,
             ClusterDiscoveryType = Some Cluster_STRICT_DNS,
             LoadAssignment =
               Some (createClusterLoadAssignment (Namespace backend @ ''-'' @ Name backend)
                       (ServiceName (MCP backend) @ ''.'' @ Namespace backend @
                        ''.svc.cluster.local'')
                       (uint32 (Port (MCP backend)))),
             TransportSocket = None\<rparr>) \<and>
   (ServiceName (MCP backend) = [] \<and>
    anypb_New \<lparr>Sni = Hostname (MCP backend)\<rparr> = Inr packed \<longrightarrow>
      convertBackendToCluster createClusterLoadAssignment anypb_New backend =
        Inr \<lparr>cluster_Name = Namespace backend @ ''-'' @ Name backend,
             ConnectTimeout = 5000000000,
             ClusterDiscoveryType = Some Cluster_LOGICAL_DNS,
             LoadAssignment =
               Some (createClusterLoadAssignment (Namespace backend @ ''-'' @ Name backend)
                       (Hostname (MCP backend)) (uint32 (Port (MCP backend)))),
             TransportSocket =
               Some \<lparr>ts_Name = ''envoy.transport_sockets.tls'', TypedConfig = packed\<rparr>\<rparr>) \<and>
   (ServiceName (MCP backend) = [] \<and>
    convertBackendToCluster createClusterLoadAssignment anypb_New backend = Inr cluster \<longrightarrow>
      (\<exists>packed. anypb_New \<lparr>Sni = Hostname (MCP backend)\<rparr> = Inr packed \<and>
         TransportSocket cluster =
           Some \<lparr>ts_Name = ''envoy.transport_sockets.tls'', TypedConfig = packed\<rparr>)) \<and>
   (0 \<le> Port (MCP backend) \<and> Port (MCP backend) < 2 ^ 32 \<longrightarrow>
      uint (uint32 (Port (MCP backend))) = Port (MCP backend))"
proof (intro conjI impI)
  assume "ServiceName (MCP backend) \<noteq> []"
  then show "convertBackendToCluster createClusterLoadAssignment anypb_New backend =
        Inr \<lparr>cluster_Name = Namespace backend @ ''-'' @ Name backend,
             ConnectTimeout = 5000000000,
             ClusterDiscoveryType = Some Cluster_STRICT_DNS,
             LoadAssignment =
               Some (createClusterLoadAssignment (Namespace backend @ ''-'' @ Name backend)
                       (ServiceName (MCP backend) @ ''.'' @ Namespace backend @
                        ''.svc.cluster.local'')
                       (uint32 (Port (MCP backend)))),
             TransportSocket = None\<rparr>"
    by (simp add: convertBackendToCluster_def ClusterName_def defaultConnectTimeout_def
        Second_def Let_def)
next
  assume "ServiceName (MCP backend) = [] \<and>
    anypb_New \<lparr>Sni = Hostname (MCP backend)\<rparr> = Inr packed"
  then show "convertBackendToCluster createClusterLoadAssignment anypb_New backend =
        Inr \<lparr>cluster_Name = Namespace backend @ ''-'' @ Name backend,
             ConnectTimeout = 5000000000,
             ClusterDiscoveryType = Some Cluster_LOGICAL_DNS,
             LoadAssignment =
               Some (createClusterLoadAssignment (Namespace backend @ ''-'' @ Name backend)
                       (Hostname (MCP backend)) (uint32 (Port (MCP backend)))),
             TransportSocket =
               Some \<lparr>ts_Name = ''envoy.transport_sockets.tls'', TypedConfig = packed\<rparr>\<rparr>"
    by (simp add: convertBackendToCluster_def ClusterName_def defaultConnectTimeout_def
        Second_def Let_def)
next
  assume "ServiceName (MCP backend) = [] \<and>
    convertBackendToCluster createClusterLoadAssignment anypb_New backend = Inr cluster"
  then show "\<exists>packed. anypb_New \<lparr>Sni = Hostname (MCP backend)\<rparr> = Inr packed \<and>
         TransportSocket cluster =
           Some \<lparr>ts_Name = ''envoy.transport_sockets.tls'', TypedConfig = packed\<rparr>"
    by (auto simp: convertBackendToCluster_def Let_def split: sum.splits)
next
  assume "0 \<le> Port (MCP backend) \<and> Port (MCP backend) < 2 ^ 32"
  then show "uint (uint32 (Port (MCP backend))) = Port (MCP backend)"
    by (simp add: uint32_in_range)
qed

theorem C6_witness:
  "convertBackendToCluster exampleLoadAssignment examplePack inClusterBackend =
     Inr \<lparr>cluster_Name = ''ns-local-mcp'', ConnectTimeout = 5000000000,
          ClusterDiscoveryType = Some Cluster_STRICT_DNS,
          LoadAssignment = Some (''ns-local-mcp'', ''svc.ns.svc.cluster.local'', 8080),
          TransportSocket = None\<rparr> \<and>
   convertBackendToCluster exampleLoadAssignment examplePack externalBackend =
     Inr \<lparr>cluster_Name = ''ns-remote-mcp'', ConnectTimeout = 5000000000,
          ClusterDiscoveryType = Some Cluster_LOGICAL_DNS,
          LoadAssignment = Some (''ns-remote-mcp'', ''api.example.com'', 443),
          TransportSocket =
            Some \<lparr>ts_Name = ''envoy.transport_sockets.tls'',
                  TypedConfig = \<lparr>Sni = ''api.example.com''\<rparr>\<rparr>\<rparr> \<and>
   uint (uint32 (Port (MCP inClusterBackend))) = 8080 \<and>
   uint (uint32 (Port (MCP externalBackend))) = 443"
  using C6_cluster_of_backend [of inClusterBackend exampleLoadAssignment examplePack]
    C6_cluster_of_backend
      [of externalBackend exampleLoadAssignment examplePack "\<lparr>Sni = ''api.example.com''\<rparr>"]
  by (simp add: inClusterBackend_def externalBackend_def uint32_def
      exampleLoadAssignment_def examplePack_def)

section \<open>The version counter and the publish step\<close>

lemma UpdateXDSServer_unfold:
  "UpdateXDSServer NewSnapshot SetSnapshot nodeid resources s =
     publish NewSnapshot SetSnapshot nodeid resources (version s + 1)
       (s\<lparr>version := version s + 1\<rparr>)"
  by (simp add: UpdateXDSServer_def version_Add_def version_Load_def)

lemma publish_version:
  "version (snd (publish NewSnapshot SetSnapshot nodeid resources ver s)) = version s"
  by (simp add: publish_def split: sum.split prod.split option.split)

lemma publish_creation_failure:
  "NewSnapshot (versionToken ver) resources = Inl err \<Longrightarrow>
   publish NewSnapshot SetSnapshot nodeid resources ver s =
     (Some (''failed to create new snapshot cache: '' @ err), s)"
  by (simp add: publish_def)

lemma publish_success:
  "publish NewSnapshot SetSnapshot nodeid resources ver s = (None, s') \<Longrightarrow>
   \<exists>snapshot. NewSnapshot (versionToken ver) resources = Inr snapshot \<and>
     SetSnapshot (cache s) nodeid snapshot = (None, cache s')"
  by (auto simp: publish_def split: sum.splits prod.splits option.splits)

lemma versionToken_inj: "versionToken v = versionToken w \<longleftrightarrow> v = w"
  by (auto simp: versionToken_def word_unat_eq_iff dest: Sprintf_d_inj)

lemma version_increases:
  fixes v :: "64 word"
  assumes "v \<noteq> - 1"
  shows "unat (v + 1) = Suc (unat v)"
proof -
  have "1 + v \<noteq> 0"
    using assms by (metis add_eq_0_iff)
  then have "unat (1 + v) = Suc (unat v)"
    by (rule unatSuc)
  then show ?thesis
    by (simp only: add.commute [of v 1])
qed

lemma runSchedule_alone:
  "runSchedule NewSnapshot SetSnapshot [0, 0, 0] (s, [Call_Start nodeid resources]) =
     (snd (UpdateXDSServer NewSnapshot SetSnapshot nodeid resources s),
      [Call_Returned (fst (UpdateXDSServer NewSnapshot SetSnapshot nodeid resources s))])"
  by (simp add: UpdateXDSServer_def Let_def split: prod.split)

lemma runSchedule_one_after_the_other:
  "runSchedule NewSnapshot SetSnapshot [0, 0, 0, 1, 1, 1]
     (s, [Call_Start node_a resources_a, Call_Start node_b resources_b]) =
   (case UpdateXDSServer NewSnapshot SetSnapshot node_a resources_a s of
      (err_a, s_a) \<Rightarrow>
        (case UpdateXDSServer NewSnapshot SetSnapshot node_b resources_b s_a of
           (err_b, s_b) \<Rightarrow> (s_b, [Call_Returned err_a, Call_Returned err_b])))"
  by (simp add: UpdateXDSServer_def Let_def split: prod.split)

lemma successive_tokens_differ: "versionToken (v + 1) \<noteq> versionToken v"
  by (simp add: versionToken_inj)

lemma runSchedule_interleaved_loads:
  "runSchedule NewSnapshot SetSnapshot [0, 1, 0, 1]
     (s, [Call_Start node_a resources_a, Call_Start node_b resources_b]) =
   (s\<lparr>version := version s + 2\<rparr>,
    [Call_Loaded node_a resources_a (version s + 2),
     Call_Loaded node_b resources_b (version s + 2)])"
  by (simp add: version_Add_def version_Load_def)

lemma sequential_calls_use_distinct_tokens:
  "(case runSchedule exampleNewSnapshot exampleSetSnapshot [0, 0, 0, 1, 1, 1]
          (freshServer,
           [Call_Start ''node-a'' [''listener''], Call_Start ''node-b'' [''cluster'']]) of
      (s, calls) \<Rightarrow>
        calls = [Call_Returned None, Call_Returned None] \<and>
        version s = 2 \<and>
        cache s ''node-a'' = Some (''1'', [''listener'']) \<and>
        cache s ''node-b'' = Some (''2'', [''cluster'']))"
  by (simp add: version_Add_def version_Load_def publish_def versionToken_def
      exampleNewSnapshot_def exampleSetSnapshot_def freshServer_def Sprintf_d.simps digit_def
     )

section \<open>Results: the distribution server\<close>

text \<open>
  Claim C7. The claim says that publishes for two different instances never get the same
  version token. \<open>UpdateXDSServer\<close> increments the shared counter with \<open>Add(1)\<close> and then
  reads it again with \<open>Load()\<close>; when two calls run at the same time and both increments
  come before both reads, the two calls read the same value. From any server state the
  schedule add, add, load, load leaves both calls holding \<open>version + 2\<close>; run to the end on
  a fresh server, the snapshots committed for \<open>node-a\<close> and \<open>node-b\<close> both carry the token
  \<open>"2"\<close>. (Run one after the other, the same two calls get \<open>"1"\<close> and \<open>"2"\<close>: lemma
  \<open>sequential_calls_use_distinct_tokens\<close>.)
\<close>

theorem C7_interleaved_calls_share_a_token:
  "runSchedule NewSnapshot SetSnapshot [0, 1, 0, 1]
     (s, [Call_Start node_a resources_a, Call_Start node_b resources_b]) =
   (s\<lparr>version := version s + 2\<rparr>,
    [Call_Loaded node_a resources_a (version s + 2),
     Call_Loaded node_b resources_b (version s + 2)]) \<and>
   (case runSchedule exampleNewSnapshot exampleSetSnapshot [0, 1, 0, 1, 0, 1]
          (freshServer,
           [Call_Start ''node-a'' [''listener''], Call_Start ''node-b'' [''cluster'']]) of
      (s', calls) \<Rightarrow>
        calls = [Call_Returned None, Call_Returned None] \<and>
        version s' = 2 \<and>
        cache s' ''node-a'' = Some (''2'', [''listener'']) \<and>
        cache s' ''node-b'' = Some (''2'', [''cluster'']))"
  by (simp add: version_Add_def version_Load_def publish_def versionToken_def
      exampleNewSnapshot_def exampleSetSnapshot_def freshServer_def Sprintf_d.simps digit_def)

text \<open>
  Claim C8. If building the snapshot fails inside \<open>UpdateXDSServer\<close>, the call returns the
  error \<open>"failed to create new snapshot cache: ..."\<close> and the snapshot cache is the one the
  call found: \<open>SetSnapshot\<close> is not reached, so the snapshot committed before for that node
  id is still the one in the cache.
\<close>

theorem C8_creation_failure_keeps_cache:
  "NewSnapshot (Sprintf_d (unat (version s + 1))) resources = Inl err \<longrightarrow>
     fst (UpdateXDSServer NewSnapshot SetSnapshot nodeid resources s) =
       Some (''failed to create new snapshot cache: '' @ err) \<and>
     cache (snd (UpdateXDSServer NewSnapshot SetSnapshot nodeid resources s)) = cache s"
  by (simp add: UpdateXDSServer_unfold publish_creation_failure versionToken_def)

theorem C8_witness:
  "(case UpdateXDSServer exampleNewSnapshot exampleSetSnapshot ''node-a'' [''listener'']
           freshServer of
      (err1, s1) \<Rightarrow>
        err1 = None \<and> cache s1 ''node-a'' = Some (''1'', [''listener'']) \<and>
        fst (UpdateXDSServer exampleNewSnapshot exampleSetSnapshot ''node-a'' [''bogus''] s1) =
          Some ''failed to create new snapshot cache: unknown resource type'' \<and>
        cache (snd (UpdateXDSServer exampleNewSnapshot exampleSetSnapshot ''node-a'' [''bogus'']
                      s1)) ''node-a'' =
          Some (''1'', [''listener'']))"
proof -
  have first: "UpdateXDSServer exampleNewSnapshot exampleSetSnapshot ''node-a'' [''listener'']
      freshServer = (None, \<lparr>version = 1, cache = [''node-a'' \<mapsto> (''1'', [''listener''])]\<rparr>)"
    by (simp add: UpdateXDSServer_unfold publish_def versionToken_def exampleNewSnapshot_def
        exampleSetSnapshot_def freshServer_def Sprintf_d.simps digit_def)
  from C8_creation_failure_keeps_cache
    [of exampleNewSnapshot "\<lparr>version = 1, cache = [''node-a'' \<mapsto> (''1'', [''listener''])]\<rparr>"
        "[''bogus'']" "''unknown resource type''" exampleSetSnapshot "''node-a''"]
  show ?thesis
    by (simp add: first exampleNewSnapshot_def)
qed

text \<open>
  Claim C9. Every call to \<open>UpdateXDSServer\<close> first adds one to the version counter (modulo
  \<open>2^64\<close>) and only then builds and commits the snapshot with the new value, so the counter
  has advanced by one whatever the outcome. A failed call uses up a number: on a fresh
  server, a call that fails to build its snapshot followed by a successful call commits the
  token \<open>"2"\<close>, and no snapshot with token \<open>"1"\<close> was ever committed.
\<close>

theorem C9_every_call_consumes_a_version:
  "UpdateXDSServer NewSnapshot SetSnapshot nodeid resources s =
     publish NewSnapshot SetSnapshot nodeid resources (version s + 1)
       (s\<lparr>version := version s + 1\<rparr>) \<and>
   version (snd (UpdateXDSServer NewSnapshot SetSnapshot nodeid resources s)) = version s + 1 \<and>
   (case UpdateXDSServer exampleNewSnapshot exampleSetSnapshot ''node-a'' [''bogus'']
           freshServer of
      (err1, s1) \<Rightarrow>
        err1 = Some ''failed to create new snapshot cache: unknown resource type'' \<and>
        version s1 = 1 \<and> cache s1 ''node-a'' = None \<and>
        (case UpdateXDSServer exampleNewSnapshot exampleSetSnapshot ''node-a'' [''listener''] s1 of
           (err2, s2) \<Rightarrow>
             err2 = None \<and> version s2 = 2 \<and>
             cache s2 ''node-a'' = Some (''2'', [''listener''])))"
proof (intro conjI)
  show "UpdateXDSServer NewSnapshot SetSnapshot nodeid resources s =
     publish NewSnapshot SetSnapshot nodeid resources (version s + 1)
       (s\<lparr>version := version s + 1\<rparr>)"
    by (rule UpdateXDSServer_unfold)
  show "version (snd (UpdateXDSServer NewSnapshot SetSnapshot nodeid resources s)) =
      version s + 1"
    by (simp add: UpdateXDSServer_unfold publish_version)
  have failed: "UpdateXDSServer exampleNewSnapshot exampleSetSnapshot ''node-a'' [''bogus'']
      freshServer =
      (Some ''failed to create new snapshot cache: unknown resource type'',
       \<lparr>version = 1, cache = Map.empty\<rparr>)"
    by (simp add: UpdateXDSServer_unfold publish_def exampleNewSnapshot_def freshServer_def
       )
  have committed: "UpdateXDSServer exampleNewSnapshot exampleSetSnapshot ''node-a'' [''listener'']
      \<lparr>version = 1, cache = Map.empty\<rparr> =
      (None, \<lparr>version = 2, cache = [''node-a'' \<mapsto> (''2'', [''listener''])]\<rparr>)"
    by (simp add: UpdateXDSServer_unfold publish_def versionToken_def exampleNewSnapshot_def
        exampleSetSnapshot_def Sprintf_d.simps digit_def)
  show "case UpdateXDSServer exampleNewSnapshot exampleSetSnapshot ''node-a'' [''bogus'']
           freshServer of
      (err1, s1) \<Rightarrow>
        err1 = Some ''failed to create new snapshot cache: unknown resource type'' \<and>
        version s1 = 1 \<and> cache s1 ''node-a'' = None \<and>
        (case UpdateXDSServer exampleNewSnapshot exampleSetSnapshot ''node-a'' [''listener''] s1 of
           (err2, s2) \<Rightarrow>
             err2 = None \<and> version s2 = 2 \<and>
             cache s2 ''node-a'' = Some (''2'', [''listener'']))"
    by (simp add: failed committed)
qed

end
